theory Spec2Isabelle
  imports Complex_Main "HOL-Library.Sublist"
begin

section \<open>Exceptions\<close>

text \<open>
  The notebooks are Python. An exception that a cell lets escape is a value of the
  type \<open>exn\<close>; a cell that can raise returns \<open>exn + 'a\<close>, with \<open>Inl\<close> for the exception
  that reaches the cell boundary.
\<close>

datatype exn =
    ImportError
  | ModuleNotFoundError
  | CalledProcessError nat
  | KeyError
  | ClientError
  | ConnectionError
  | FileNotFoundError
  | OtherError string

text \<open>
  \<^verbatim>\<open>except ImportError:\<close> catches \<open>ImportError\<close> and its subclass
  \<open>ModuleNotFoundError\<close>, and nothing else.
\<close>

fun is_ImportError :: "exn \<Rightarrow> bool" where
  "is_ImportError ImportError = True"
| "is_ImportError ModuleNotFoundError = True"
| "is_ImportError _ = False"

section \<open>The package-setup cell\<close>

text \<open>
  Every notebook starts with the same loop (Echofish chapter 2 shown; chapters 1 and 3
  add one line that pins a version):
  \<^verbatim>\<open>
  for package in PACKAGES:
      try:
          __import__(package)
      except ImportError:
          if package == 'echopype': package = 'echopype==0.8.4'   # chapter 1 only
          subprocess.check_call([sys.executable, '-m', 'pip', 'install', package])
  \<close>
  The Python environment is a parameter of the model:
  \<^item> \<open>imp env package\<close> is what \<^verbatim>\<open>__import__(package)\<close> does in the environment
    \<open>env\<close>: \<open>None\<close> when it returns, \<open>Some e\<close> when it raises \<open>e\<close>; an import looks the
    environment up and installs nothing, so it leaves \<open>env\<close> as it is;
  \<^item> \<open>pip env req\<close> is what \<^verbatim>\<open>subprocess.check_call([..., 'pip', 'install', req])\<close>
    does: the environment after the installation, or the exception it raises.
  A run records what it does to the world around it as a list of events, in order:
  the imports and installations of this loop, and the remote and local file accesses
  of the cells that follow it.
\<close>

datatype event =
    Imported string
  | ImportRaised string exn
  | PipInstall string
  | DownloadFile string string string
  | OpenZarr string
  | HttpGet string
  | ListDir
  | OpenRaw string
  | Remove string

fun install_packages ::
  "(string \<Rightarrow> string) \<Rightarrow> ('env \<Rightarrow> string \<Rightarrow> exn option) \<Rightarrow> ('env \<Rightarrow> string \<Rightarrow> exn + 'env) \<Rightarrow>
   string list \<Rightarrow> 'env \<Rightarrow> event list \<times> (exn + 'env)" where
  "install_packages pin imp pip [] env = ([], Inr env)"
| "install_packages pin imp pip (package # rest) env =
     (case imp env package of
        None \<Rightarrow>
          (case install_packages pin imp pip rest env of
             (evs, r) \<Rightarrow> (Imported package # evs, r))
      | Some e \<Rightarrow>
          if is_ImportError e then
            (case pip env (pin package) of
               Inl e' \<Rightarrow> ([ImportRaised package e, PipInstall (pin package)], Inl e')
             | Inr env' \<Rightarrow>
                 (case install_packages pin imp pip rest env' of
                    (evs, r) \<Rightarrow> (ImportRaised package e # PipInstall (pin package) # evs, r)))
          else ([ImportRaised package e], Inl e))"

text \<open>The requirement string handed to pip, per notebook.\<close>

definition chapter1_requirement :: "string \<Rightarrow> string" where
  "chapter1_requirement package =
     (if package = ''echopype'' then ''echopype==0.8.4'' else package)"

definition chapter3_requirement :: "string \<Rightarrow> string" where
  "chapter3_requirement package =
     (if package = ''geopandas'' then ''geopandas==0.13.1'' else package)"

definition chapter1_PACKAGES :: "string list" where
  "chapter1_PACKAGES = [''boto3'', ''botocore'', ''echopype'']"

definition chapter2_PACKAGES :: "string list" where
  "chapter2_PACKAGES = [''boto3'', ''numpy'', ''matplotlib'', ''xarray'', ''zarr'', ''s3fs'']"

definition chapter3_PACKAGES :: "string list" where
  "chapter3_PACKAGES =
     [''numpy'', ''pandas'', ''geopandas'', ''matplotlib'', ''xarray'', ''zarr'', ''folium'',
      ''boto3'', ''s3fs'', ''mapclassify'']"

definition tcprimed_packages :: "string list" where
  "tcprimed_packages = [''netCDF4'', ''numpy'']"

definition chapter1_install ::
  "('env \<Rightarrow> string \<Rightarrow> exn option) \<Rightarrow> ('env \<Rightarrow> string \<Rightarrow> exn + 'env) \<Rightarrow> 'env \<Rightarrow>
   event list \<times> (exn + 'env)" where
  "chapter1_install imp pip env =
     install_packages chapter1_requirement imp pip chapter1_PACKAGES env"

definition chapter2_install ::
  "('env \<Rightarrow> string \<Rightarrow> exn option) \<Rightarrow> ('env \<Rightarrow> string \<Rightarrow> exn + 'env) \<Rightarrow> 'env \<Rightarrow>
   event list \<times> (exn + 'env)" where
  "chapter2_install imp pip env = install_packages (\<lambda>package. package) imp pip chapter2_PACKAGES env"

definition chapter3_install ::
  "('env \<Rightarrow> string \<Rightarrow> exn option) \<Rightarrow> ('env \<Rightarrow> string \<Rightarrow> exn + 'env) \<Rightarrow> 'env \<Rightarrow>
   event list \<times> (exn + 'env)" where
  "chapter3_install imp pip env =
     install_packages chapter3_requirement imp pip chapter3_PACKAGES env"

definition tcprimed_install ::
  "('env \<Rightarrow> string \<Rightarrow> exn option) \<Rightarrow> ('env \<Rightarrow> string \<Rightarrow> exn + 'env) \<Rightarrow> 'env \<Rightarrow>
   event list \<times> (exn + 'env)" where
  "tcprimed_install imp pip env = install_packages (\<lambda>package. package) imp pip tcprimed_packages env"

text \<open>Two readings of the event list: the requirement strings pip was called with, and
  the packages whose import raised an \<open>ImportError\<close>.\<close>

fun pip_requests :: "event list \<Rightarrow> string list" where
  "pip_requests [] = []"
| "pip_requests (PipInstall req # evs) = req # pip_requests evs"
| "pip_requests (_ # evs) = pip_requests evs"

fun import_errors :: "event list \<Rightarrow> string list" where
  "import_errors [] = []"
| "import_errors (ImportRaised package e # evs) =
     (if is_ImportError e then package # import_errors evs else import_errors evs)"
| "import_errors (_ # evs) = import_errors evs"

text \<open>A third reading: the packages the loop tried to import, in order.\<close>

fun import_attempts :: "event list \<Rightarrow> string list" where
  "import_attempts [] = []"
| "import_attempts (Imported package # evs) = package # import_attempts evs"
| "import_attempts (ImportRaised package e # evs) = package # import_attempts evs"
| "import_attempts (_ # evs) = import_attempts evs"

text \<open>
  A small environment to run the cells in: the list of the packages that can be
  imported. Importing a missing package raises \<open>ModuleNotFoundError\<close>; pip adds the
  package a requirement names (the text before \<open>==\<close>).
\<close>

definition listed_import :: "string list \<Rightarrow> string \<Rightarrow> exn option" where
  "listed_import env package = (if package \<in> set env then None else Some ModuleNotFoundError)"

definition requirement_name :: "string \<Rightarrow> string" where
  "requirement_name req = takeWhile (\<lambda>c. c \<noteq> CHR ''='') req"

definition listed_pip :: "string list \<Rightarrow> string \<Rightarrow> exn + string list" where
  "listed_pip env req = Inr (requirement_name req # env)"

section \<open>Floating-point values\<close>

text \<open>
  Depth labels and Sv samples are IEEE-754 numbers: a finite value, an infinity or NaN.
  A comparison with NaN is false. A subtraction with a NaN operand is NaN, as is the
  difference of two equal infinities; the difference of two finite values is the exact
  difference rounded to the array's precision by \<open>rnd\<close>, a parameter.
\<close>

datatype flt = NaN | NegInf | Finite real | PosInf

fun flt_less :: "flt \<Rightarrow> flt \<Rightarrow> bool" where
  "flt_less (Finite x) (Finite y) = (x < y)"
| "flt_less NegInf (Finite y) = True"
| "flt_less NegInf PosInf = True"
| "flt_less (Finite x) PosInf = True"
| "flt_less _ _ = False"

fun flt_sub :: "(real \<Rightarrow> flt) \<Rightarrow> flt \<Rightarrow> flt \<Rightarrow> flt" where
  "flt_sub rnd (Finite x) (Finite y) = rnd (x - y)"
| "flt_sub rnd NaN _ = NaN"
| "flt_sub rnd _ NaN = NaN"
| "flt_sub rnd PosInf PosInf = NaN"
| "flt_sub rnd NegInf NegInf = NaN"
| "flt_sub rnd PosInf _ = PosInf"
| "flt_sub rnd NegInf _ = NegInf"
| "flt_sub rnd (Finite x) PosInf = NegInf"
| "flt_sub rnd (Finite x) NegInf = PosInf"

section \<open>Labelled arrays\<close>

text \<open>
  The chapter 2 notebook opens the cruise's Zarr store as an xarray dataset and reads
  one variable of it, \<open>Sv\<close>, with the dimensions depth, time and frequency. Each
  dimension has a coordinate index; a sample is addressed by its labels, so an index
  is taken to hold each label once. Time labels are \<open>datetime64[ns]\<close>: 64-bit counts
  of nanoseconds since 1970-01-01T00:00:00 (NaT is the least count, below every date).
\<close>

record dataset =
  ds_depth :: "flt list"
  ds_time :: "int list"
  ds_frequency :: "int list"
  ds_Sv :: "flt \<Rightarrow> int \<Rightarrow> int \<Rightarrow> flt"

record data_array =
  depth :: "flt list"
  time :: "int list"
  sample :: "flt \<Rightarrow> int \<Rightarrow> flt"

text \<open>
  \<^verbatim>\<open>cruise.sel(frequency=f)\<close> looks the label \<open>f\<close> up in the frequency index and raises
  \<open>KeyError\<close> when it is not there. The cells read \<^verbatim>\<open>.Sv\<close> of the selection after
  \<^verbatim>\<open>.where(...)\<close>, which treats every variable alike, so the selection is modelled as
  its \<open>Sv\<close> array.
\<close>

definition sel_frequency :: "dataset \<Rightarrow> int \<Rightarrow> exn + data_array" where
  "sel_frequency ds f =
     (if f \<in> set (ds_frequency ds)
      then Inr \<lparr>depth = ds_depth ds, time = ds_time ds, sample = (\<lambda>d t. ds_Sv ds d t f)\<rparr>
      else Inl KeyError)"

text \<open>
  A boolean array over the time index, over the depth index, or over both.
  \<^verbatim>\<open>&\<close> is element-wise; operands over different dimensions are broadcast.
\<close>

datatype mask =
    TimeMask "int \<Rightarrow> bool"
  | DepthMask "flt \<Rightarrow> bool"
  | GridMask "flt \<Rightarrow> int \<Rightarrow> bool"

fun holds :: "mask \<Rightarrow> flt \<Rightarrow> int \<Rightarrow> bool" where
  "holds (TimeMask m) d t = m t"
| "holds (DepthMask m) d t = m d"
| "holds (GridMask m) d t = m d t"

fun mask_and :: "mask \<Rightarrow> mask \<Rightarrow> mask" where
  "mask_and (TimeMask a) (TimeMask b) = TimeMask (\<lambda>t. a t \<and> b t)"
| "mask_and (DepthMask a) (DepthMask b) = DepthMask (\<lambda>d. a d \<and> b d)"
| "mask_and a b = GridMask (\<lambda>d t. holds a d t \<and> holds b d t)"

text \<open>
  \<^verbatim>\<open>a.where(cond, drop=True)\<close>: along each dimension of \<open>cond\<close>, a label is kept when
  \<open>cond\<close> is true somewhere along the other dimensions; then every sample where
  \<open>cond\<close> is false becomes NaN.
\<close>

fun where_drop :: "data_array \<Rightarrow> mask \<Rightarrow> data_array" where
  "where_drop a (TimeMask m) =
     \<lparr>depth = depth a, time = filter m (time a),
      sample = (\<lambda>d t. if m t then sample a d t else NaN)\<rparr>"
| "where_drop a (DepthMask m) =
     \<lparr>depth = filter m (depth a), time = time a,
      sample = (\<lambda>d t. if m d then sample a d t else NaN)\<rparr>"
| "where_drop a (GridMask m) =
     \<lparr>depth = filter (\<lambda>d. \<exists>t \<in> set (time a). m d t) (depth a),
      time = filter (\<lambda>t. \<exists>d \<in> set (depth a). m d t) (time a),
      sample = (\<lambda>d t. if m d t then sample a d t else NaN)\<rparr>"

text \<open>
  \<^verbatim>\<open>a - b\<close>: the operands are aligned on the labels both hold (xarray's inner join),
  then subtracted sample by sample.
\<close>

definition da_sub :: "(real \<Rightarrow> flt) \<Rightarrow> data_array \<Rightarrow> data_array \<Rightarrow> data_array" where
  "da_sub rnd a b =
     \<lparr>depth = filter (\<lambda>d. d \<in> set (depth b)) (depth a),
      time = filter (\<lambda>t. t \<in> set (time b)) (time a),
      sample = (\<lambda>d t. flt_sub rnd (sample a d t) (sample b d t))\<rparr>"

text \<open>\<^verbatim>\<open>a.dropna(dim='depth')\<close>: a depth label is dropped when any of its samples is NaN.\<close>

definition dropna_depth :: "data_array \<Rightarrow> data_array" where
  "dropna_depth a = a\<lparr>depth := filter (\<lambda>d. \<forall>t \<in> set (time a). sample a d t \<noteq> NaN) (depth a)\<rparr>"

section \<open>Echofish chapter 2: subsetting and frequency differencing\<close>

text \<open>
  \<^verbatim>\<open>
  start_time = np.datetime64('2015-07-19T19:00:00')
  end_time = np.datetime64('2015-07-19T20:00:00')
  select_times = (cruise.time > start_time) & (cruise.time < end_time)
  \<close>
  The two instants are 1437332400 and 1437336000 seconds after the epoch, compared
  with the time labels in nanoseconds.
\<close>

definition start_time :: int where
  "start_time = 1437332400 * 10 ^ 9"

definition end_time :: int where
  "end_time = 1437336000 * 10 ^ 9"

definition select_times :: mask where
  "select_times = mask_and (TimeMask (\<lambda>t. t > start_time)) (TimeMask (\<lambda>t. t < end_time))"

text \<open>
  \<^verbatim>\<open>
  start_depth = 0
  end_depth = 500
  select_depths = (cruise.depth > start_depth) & (cruise.depth < end_depth)
  \<close>
\<close>

definition start_depth :: flt where
  "start_depth = Finite 0"

definition end_depth :: flt where
  "end_depth = Finite 500"

definition select_depths :: mask where
  "select_depths =
     mask_and (DepthMask (\<lambda>d. flt_less start_depth d)) (DepthMask (\<lambda>d. flt_less d end_depth))"

text \<open>
  The arrays the notebook builds, in the order of its cells (the cells in between
  print or plot one of them and assign nothing):
  \<^verbatim>\<open>
  Sv_38 = cruise.sel(frequency=38000).where((select_times), drop=True).Sv
  Sv_38_subset = Sv_38.where((select_depths), drop=True)
  Sv_18 = cruise.sel(frequency=18000).where((select_times) & (select_depths), drop=True).Sv
  Sv_120 = cruise.sel(frequency=120000).where((select_times) & (select_depths), drop=True).Sv
  Sv_200 = cruise.sel(frequency=200000).where((select_times) & (select_depths), drop=True).Sv
  Sv_120_subset = Sv_120.where((select_depths), drop=True)
  first_freq_array = Sv_120
  second_freq_array = Sv_38
  Sv_select_diff = first_freq_array - second_freq_array
  Sv_select_diff = Sv_select_diff.dropna(dim='depth')
  \<close>
  \<open>Sv_select_diff\<close> is assigned twice; the record keeps both values.
\<close>

record chapter2 =
  Sv_38 :: data_array
  Sv_38_subset :: data_array
  Sv_18 :: data_array
  Sv_120 :: data_array
  Sv_200 :: data_array
  Sv_120_subset :: data_array
  Sv_select_diff :: data_array
  Sv_select_diff_dropna :: data_array

definition chapter2_arrays :: "(real \<Rightarrow> flt) \<Rightarrow> dataset \<Rightarrow> exn + chapter2" where
  "chapter2_arrays rnd cruise =
     (case sel_frequency cruise 38000 of Inl e \<Rightarrow> Inl e | Inr sel_38 \<Rightarrow>
        let sv_38 = where_drop sel_38 select_times;
            sv_38_subset = where_drop sv_38 select_depths
        in
      case sel_frequency cruise 18000 of Inl e \<Rightarrow> Inl e | Inr sel_18 \<Rightarrow>
        let sv_18 = where_drop sel_18 (mask_and select_times select_depths) in
      case sel_frequency cruise 120000 of Inl e \<Rightarrow> Inl e | Inr sel_120 \<Rightarrow>
        let sv_120 = where_drop sel_120 (mask_and select_times select_depths) in
      case sel_frequency cruise 200000 of Inl e \<Rightarrow> Inl e | Inr sel_200 \<Rightarrow>
        let sv_200 = where_drop sel_200 (mask_and select_times select_depths);
            sv_120_subset = where_drop sv_120 select_depths;
            first_freq_array = sv_120;
            second_freq_array = sv_38;
            sv_select_diff = da_sub rnd first_freq_array second_freq_array
        in Inr \<lparr>Sv_38 = sv_38, Sv_38_subset = sv_38_subset, Sv_18 = sv_18, Sv_120 = sv_120,
                Sv_200 = sv_200, Sv_120_subset = sv_120_subset,
                Sv_select_diff = sv_select_diff,
                Sv_select_diff_dropna = dropna_depth sv_select_diff\<rparr>)"



text \<open>A cruise of three pings and four depth levels at four frequencies, to run the
  cells on: the first and the last ping lie on the two time bounds, the first and the
  last depth on the two depth bounds, and one sample at 38 kHz is NaN.\<close>

definition small_cruise :: dataset where
  "small_cruise =
     \<lparr>ds_depth = [Finite 0, Finite 100, Finite 250, Finite 500],
      ds_time = [1437332400 * 10 ^ 9, 1437334200 * 10 ^ 9, 1437336000 * 10 ^ 9],
      ds_frequency = [18000, 38000, 120000, 200000],
      ds_Sv = (\<lambda>d t f.
         if f = 38000 \<and> d = Finite 250 then NaN
         else if f = 120000 then Finite (- 60) else Finite (- 70))\<rparr>"

text \<open>A second cruise, whose Sv changes with the depth: two pings and three depth levels
  lie strictly inside the bounds, and one sample at 38 kHz is NaN. With it a rounding
  that is not exact: to the whole decibel below.\<close>

definition layered_cruise :: dataset where
  "layered_cruise =
     \<lparr>ds_depth = [Finite 0, Finite 100, Finite 250, Finite 400, Finite 500],
      ds_time = [1437332400 * 10 ^ 9, 1437333000 * 10 ^ 9, 1437334200 * 10 ^ 9,
                 1437336000 * 10 ^ 9],
      ds_frequency = [18000, 38000, 70000, 120000, 200000],
      ds_Sv = (\<lambda>d t f.
         case d of
           Finite x \<Rightarrow>
             if f = 38000 \<and> x = 250 \<and> t = 1437334200 * 10 ^ 9 then NaN
             else if f = 120000 then Finite (- 60 - x / 100)
             else Finite (- 70 - x / 50)
         | _ \<Rightarrow> NaN)\<rparr>"

definition whole_dB :: "real \<Rightarrow> flt" where
  "whole_dB x = Finite (of_int \<lfloor>x\<rfloor>)"

section \<open>Echofish chapter 3: simplifying the ship's track\<close>

text \<open>
  \<^verbatim>\<open>
  linestring = geom.LineString( [xy for xy in zip(gps_gdf.latitude, gps_gdf.longitude)] )
  lineSimplified = linestring.simplify(tolerance=0.01, preserve_topology=True)
  \<close>
  A linestring is the list of its coordinates.
\<close>

definition linestring :: "real list \<Rightarrow> real list \<Rightarrow> (real \<times> real) list" where
  "linestring latitude longitude = zip latitude longitude"

text \<open>
  Modelled from the spec: \<^verbatim>\<open>simplify\<close> is a call into Shapely, whose code is not part
  of the repository. The spec calls the operation RDP line simplification, and the
  notebook's own text says the geometry is simplified with the Ramer-Douglas-Peucker
  algorithm, specified with a single tolerance value. That algorithm: a line of fewer
  than three vertices stays as it is; otherwise take the vertex farthest from the chord
  between the first and the last vertex; if it is farther than the tolerance, simplify
  the part up to it and the part from it on and join the two results at it; if not,
  only the first and the last vertex remain. How the distance of a vertex from the
  chord is measured is a parameter. With \<^verbatim>\<open>preserve_topology=True\<close> a part of the
  line is not replaced by its chord where that would change the topology of the line,
  and is divided at its farthest vertex instead; the check \<open>topology_ok\<close> is a
  parameter too.
\<close>

definition farthest :: "('p \<Rightarrow> 'p \<Rightarrow> 'p \<Rightarrow> 'd::linorder) \<Rightarrow> 'p list \<Rightarrow> nat" where
  "farthest distance ps =
     fold (\<lambda>i best.
             if distance (hd ps) (last ps) (ps ! best) < distance (hd ps) (last ps) (ps ! i)
             then i else best)
       [1 ..< length ps - 1] 1"

function rdp ::
  "('p \<Rightarrow> 'p \<Rightarrow> 'p \<Rightarrow> 'd::linorder) \<Rightarrow> 'd \<Rightarrow> ('p list \<Rightarrow> bool) \<Rightarrow> 'p list \<Rightarrow> 'p list" where
  "rdp distance tolerance topology_ok ps =
     (if length ps < 3 then ps
      else
        let i = farthest distance ps in
        if tolerance < distance (hd ps) (last ps) (ps ! i) \<or> \<not> topology_ok ps
        then butlast (rdp distance tolerance topology_ok (take (Suc i) ps)) @
             rdp distance tolerance topology_ok (drop i ps)
        else [hd ps, last ps])"
  by pat_completeness auto
termination
proof (relation "measure (\<lambda>(distance, tolerance, topology_ok, ps). length ps)", goal_cases)
  have pick: "fold (\<lambda>i best. if P i best then i else best) idx b \<in> insert b (set idx)"
    for P :: "nat \<Rightarrow> nat \<Rightarrow> bool" and idx b
    by (induction idx arbitrary: b) auto
  have bounds: "1 \<le> farthest distance ps \<and> farthest distance ps < length ps - 1"
    if "\<not> length ps < 3" for distance :: "'p \<Rightarrow> 'p \<Rightarrow> 'p \<Rightarrow> 'd::linorder" and ps
  proof -
    have "farthest distance ps \<in> insert 1 (set [1 ..< length ps - 1])"
      unfolding farthest_def by (rule pick)
    with that show ?thesis by auto
  qed
  {
    case 1
    show ?case by simp
  next
    case (2 distance tolerance topology_ok ps i)
    with bounds [of ps distance] show ?case by auto
  next
    case (3 distance tolerance topology_ok ps i)
    with bounds [of ps distance] show ?case by auto
  }
qed

definition lineSimplified ::
  "(real \<times> real \<Rightarrow> real \<times> real \<Rightarrow> real \<times> real \<Rightarrow> real) \<Rightarrow> ((real \<times> real) list \<Rightarrow> bool) \<Rightarrow>
   (real \<times> real) list \<Rightarrow> (real \<times> real) list" where
  "lineSimplified distance topology_ok coords = rdp distance (1 / 100) topology_ok coords"

text \<open>A measure to run the simplification with: twice the area of the triangle that a
  vertex spans with the chord.\<close>

definition triangle_area2 :: "real \<times> real \<Rightarrow> real \<times> real \<Rightarrow> real \<times> real \<Rightarrow> real" where
  "triangle_area2 a b p =
     \<bar>(fst b - fst a) * (snd p - snd a) - (snd b - snd a) * (fst p - fst a)\<bar>"

section \<open>The notebooks as runs\<close>

text \<open>
  What a notebook cannot compute by itself is a parameter, collected in \<open>world\<close>:
  the Python environment's import and pip, the objects of the public S3 buckets, the
  Zarr store behind a path, the body an HTTPS GET returns, and the rounding of the
  float arithmetic. The machine a notebook runs on holds the Python environment and
  the local files.
\<close>

type_synonym bytes = string

record 'env world =
  import_module :: "'env \<Rightarrow> string \<Rightarrow> exn option"
  pip_install :: "'env \<Rightarrow> string \<Rightarrow> exn + 'env"
  s3_object :: "string \<Rightarrow> string \<Rightarrow> exn + bytes"
  zarr_store :: "string \<Rightarrow> exn + dataset"
  http_get :: "string \<Rightarrow> exn + bytes"
  rounding :: "real \<Rightarrow> flt"

record 'env machine =
  python :: 'env
  files :: "string \<rightharpoonup> bytes"

text \<open>Cells run in order; the first exception that escapes a cell ends the run.\<close>

definition then_run ::
  "event list \<times> (exn + 'a) \<Rightarrow> ('a \<Rightarrow> event list \<times> (exn + 'b)) \<Rightarrow> event list \<times> (exn + 'b)" where
  "then_run r f =
     (case r of
        (evs, Inl e) \<Rightarrow> (evs, Inl e)
      | (evs, Inr x) \<Rightarrow> (case f x of (evs', r') \<Rightarrow> (evs @ evs', r')))"

subsection \<open>Echofish chapter 1: processing EK60 data\<close>

text \<open>
  \<^verbatim>\<open>
  bucket_name = 'noaa-wcsd-pds'
  ship_name = 'Bell_M._Shimada'
  cruise_name = 'SH1507'
  sensor_name = 'EK60'
  file_names = [ "SaKe2015-D20150719-T193412.raw", ... ]
  \<close>
\<close>

definition chapter1_bucket_name :: string where
  "chapter1_bucket_name = ''noaa-wcsd-pds''"

definition ship_name :: string where
  "ship_name = ''Bell_M._Shimada''"

definition cruise_name :: string where
  "cruise_name = ''SH1507''"

definition sensor_name :: string where
  "sensor_name = ''EK60''"

definition file_names :: "string list" where
  "file_names =
     [''SaKe2015-D20150719-T193412.raw'',
      ''SaKe2015-D20150719-T193443.raw'',
      ''SaKe2015-D20150719-T194042.raw'',
      ''SaKe2015-D20150719-T194642.raw'',
      ''SaKe2015-D20150719-T195242.raw'',
      ''SaKe2015-D20150719-T195842.raw'']"

text \<open>
  \<^verbatim>\<open>
  s3 = boto3.client(service_name='s3', config=Config(signature_version=UNSIGNED))
  for file_name in file_names:
    s3.download_file(
        Bucket=bucket_name,
        Key=f'data/raw/{ship_name}/{cruise_name}/{sensor_name}/{file_name}',
        Filename=os.path.basename(file_name),
    )
    print(os.path.basename(file_name))
  \<close>
  \<^verbatim>\<open>os.path.basename\<close> is the text after the last \<open>/\<close>.
\<close>

definition raw_key :: "string \<Rightarrow> string" where
  "raw_key file_name =
     ''data/raw/'' @ ship_name @ ''/'' @ cruise_name @ ''/'' @ sensor_name @ ''/'' @ file_name"

definition basename :: "string \<Rightarrow> string" where
  "basename path = rev (takeWhile (\<lambda>c. c \<noteq> CHR ''/'') (rev path))"

fun download_files ::
  "(string \<Rightarrow> string \<Rightarrow> exn + bytes) \<Rightarrow> string list \<Rightarrow> (string \<rightharpoonup> bytes) \<Rightarrow>
   event list \<times> (exn + (string \<rightharpoonup> bytes))" where
  "download_files s3 [] fs = ([], Inr fs)"
| "download_files s3 (file_name # rest) fs =
     (case s3 chapter1_bucket_name (raw_key file_name) of
        Inl e \<Rightarrow> ([], Inl e)
      | Inr body \<Rightarrow>
          (case download_files s3 rest (fs(basename file_name \<mapsto> body)) of
             (evs, r) \<Rightarrow>
               (DownloadFile chapter1_bucket_name (raw_key file_name) (basename file_name) # evs,
                r)))"

text \<open>
  \<^verbatim>\<open>
  echodata = []
  for i in range(len(file_names)):
    echodata.append(ep.open_raw(raw_file=file_names[i], sonar_model=sensor_name))
  \<close>
  \<^verbatim>\<open>open_raw\<close> reads the local file of that name; what echopype makes of the bytes is
  not modelled, the list holds the bytes.
\<close>

fun open_raw_files ::
  "(string \<rightharpoonup> bytes) \<Rightarrow> string list \<Rightarrow> event list \<times> (exn + bytes list)" where
  "open_raw_files fs [] = ([], Inr [])"
| "open_raw_files fs (raw_file # rest) =
     (case fs raw_file of
        None \<Rightarrow> ([], Inl FileNotFoundError)
      | Some body \<Rightarrow>
          (case open_raw_files fs rest of
             (evs, Inl e) \<Rightarrow> (OpenRaw raw_file # evs, Inl e)
           | (evs, Inr echodata) \<Rightarrow> (OpenRaw raw_file # evs, Inr (body # echodata))))"

text \<open>
  Between the two loops the notebook lists the working directory
  (\<^verbatim>\<open>os.listdir()\<close>); after them it removes echopype's temporary store
  (\<^verbatim>\<open>!rm -rf /root/.echopype/temp_output/combined_echodata.zarr\<close>). The cells that
  follow (\<^verbatim>\<open>combine_echodata\<close>, \<^verbatim>\<open>compute_Sv\<close>, the plots) are calls into echopype
  and are not modelled.
\<close>

definition temp_output :: string where
  "temp_output = ''/root/.echopype/temp_output/combined_echodata.zarr''"

definition chapter1 :: "'env world \<Rightarrow> 'env machine \<Rightarrow> event list \<times> (exn + 'env machine)" where
  "chapter1 w m =
     then_run (chapter1_install (import_module w) (pip_install w) (python m)) (\<lambda>env.
     then_run (download_files (s3_object w) file_names (files m)) (\<lambda>fs.
     then_run ([ListDir], Inr ()) (\<lambda>_.
     then_run (open_raw_files fs file_names) (\<lambda>echodata.
     then_run ([Remove temp_output], Inr (fs(temp_output := None))) (\<lambda>fs'.
       ([], Inr \<lparr>python = env, files = fs'\<rparr>))))))"

subsection \<open>Echofish chapters 2 and 3: the cruise's Zarr store\<close>

text \<open>
  \<^verbatim>\<open>
  bucket_name = 'noaa-wcsd-zarr-pds'
  zarr_store = f'{cruise_name}.zarr'
  s3_zarr_store_path = f"{bucket_name}/level_2/{ship_name}/{cruise_name}/{sensor_name}/{zarr_store}"
  s3_file_system = s3fs.S3FileSystem(anon=True)
  store = s3fs.S3Map(root=s3_zarr_store_path, s3=s3_file_system, check=False)
  cruise = xr.open_zarr(store=store, consolidated=None)
  \<close>
  Chapter 3 writes \<^verbatim>\<open>zarr_store = 'SH1507.zarr'\<close>, the same text.
\<close>

definition zarr_bucket_name :: string where
  "zarr_bucket_name = ''noaa-wcsd-zarr-pds''"

definition s3_zarr_store_path :: string where
  "s3_zarr_store_path =
     zarr_bucket_name @ ''/level_2/'' @ ship_name @ ''/'' @ cruise_name @ ''/'' @ sensor_name @
     ''/'' @ (cruise_name @ ''.zarr'')"

definition open_zarr :: "'env world \<Rightarrow> string \<Rightarrow> event list \<times> (exn + dataset)" where
  "open_zarr w store_root =
     (case zarr_store w store_root of
        Inl e \<Rightarrow> ([], Inl e)
      | Inr cruise \<Rightarrow> ([OpenZarr store_root], Inr cruise))"

definition chapter2 ::
  "'env world \<Rightarrow> 'env machine \<Rightarrow> event list \<times> (exn + 'env machine \<times> chapter2)" where
  "chapter2 w m =
     then_run (chapter2_install (import_module w) (pip_install w) (python m)) (\<lambda>env.
     then_run (open_zarr w s3_zarr_store_path) (\<lambda>cruise.
     then_run ([], chapter2_arrays (rounding w) cruise) (\<lambda>arrays.
       ([], Inr (\<lparr>python = env, files = files m\<rparr>, arrays)))))"

text \<open>Chapter 3 reads latitude, longitude and time of the same store into GeoPandas and
  Shapely; those cells are calls into the two libraries and are not modelled.\<close>

definition chapter3 ::
  "'env world \<Rightarrow> 'env machine \<Rightarrow> event list \<times> (exn + 'env machine \<times> dataset)" where
  "chapter3 w m =
     then_run (chapter3_install (import_module w) (pip_install w) (python m)) (\<lambda>env.
     then_run (open_zarr w s3_zarr_store_path) (\<lambda>cruise.
       ([], Inr (\<lparr>python = env, files = files m\<rparr>, cruise))))"

subsection \<open>TC PRIMED chapter 1a: one NetCDF file\<close>

text \<open>
  \<^verbatim>\<open>
  NODD_URL = "https://noaa-nesdis-tcprimed-pds.s3.amazonaws.com/v01r01/final/2018/AL/06/"
  FILE_NAME = "TCPRIMED_v01r01-final_AL062018_GMI_GPM_025677_20180905051440.nc"
  url_response = requests.get(NODD_URL + FILE_NAME)
  DS = Dataset(FILE_NAME, memory=url_response.content)
  \<close>
  The dataset is opened from memory: no local file is read or written.
\<close>

definition NODD_URL :: string where
  "NODD_URL = ''https://noaa-nesdis-tcprimed-pds.s3.amazonaws.com/v01r01/final/2018/AL/06/''"

definition FILE_NAME :: string where
  "FILE_NAME = ''TCPRIMED_v01r01-final_AL062018_GMI_GPM_025677_20180905051440.nc''"

definition requests_get :: "'env world \<Rightarrow> string \<Rightarrow> event list \<times> (exn + bytes)" where
  "requests_get w url =
     (case http_get w url of
        Inl e \<Rightarrow> ([], Inl e)
      | Inr body \<Rightarrow> ([HttpGet url], Inr body))"

definition tcprimed_chapter1a ::
  "'env world \<Rightarrow> 'env machine \<Rightarrow> event list \<times> (exn + 'env machine \<times> bytes)" where
  "tcprimed_chapter1a w m =
     then_run (tcprimed_install (import_module w) (pip_install w) (python m)) (\<lambda>env.
     then_run (requests_get w (NODD_URL @ FILE_NAME)) (\<lambda>content.
       ([], Inr (\<lparr>python = env, files = files m\<rparr>, content))))"

subsection \<open>The four notebooks side by side\<close>

datatype notebook =
    Echofish_Chapter_1
  | Echofish_Chapter_2
  | Echofish_Chapter_3
  | TCPRIMED_Chapter_1a

text \<open>The events of a run and the machine it leaves (or the exception that ended it).\<close>

definition keep_machine ::
  "event list \<times> (exn + 'env machine \<times> 'a) \<Rightarrow> event list \<times> (exn + 'env machine)" where
  "keep_machine r = (fst r, map_sum id fst (snd r))"

fun run_notebook ::
  "notebook \<Rightarrow> 'env world \<Rightarrow> 'env machine \<Rightarrow> event list \<times> (exn + 'env machine)" where
  "run_notebook Echofish_Chapter_1 w m = chapter1 w m"
| "run_notebook Echofish_Chapter_2 w m = keep_machine (chapter2 w m)"
| "run_notebook Echofish_Chapter_3 w m = keep_machine (chapter3 w m)"
| "run_notebook TCPRIMED_Chapter_1a w m = keep_machine (tcprimed_chapter1a w m)"

text \<open>
  The first code cell of every notebook is its package-setup loop: \<open>package_setup nb w m\<close>
  is that cell of the notebook \<open>nb\<close> on the machine \<open>m\<close>, the loop over the notebook's
  own \<open>PACKAGES\<close> with the notebook's own requirement strings. \<open>setup_loop nb w packages env\<close>
  is the same loop over any list of packages, to speak of the turns of the cell one by
  one.
\<close>

fun notebook_packages :: "notebook \<Rightarrow> string list" where
  "notebook_packages Echofish_Chapter_1 = chapter1_PACKAGES"
| "notebook_packages Echofish_Chapter_2 = chapter2_PACKAGES"
| "notebook_packages Echofish_Chapter_3 = chapter3_PACKAGES"
| "notebook_packages TCPRIMED_Chapter_1a = tcprimed_packages"

fun notebook_requirement :: "notebook \<Rightarrow> string \<Rightarrow> string" where
  "notebook_requirement Echofish_Chapter_1 package = chapter1_requirement package"
| "notebook_requirement Echofish_Chapter_2 package = package"
| "notebook_requirement Echofish_Chapter_3 package = chapter3_requirement package"
| "notebook_requirement TCPRIMED_Chapter_1a package = package"

definition setup_loop ::
  "notebook \<Rightarrow> 'env world \<Rightarrow> string list \<Rightarrow> 'env \<Rightarrow> event list \<times> (exn + 'env)" where
  "setup_loop nb w packages env =
     install_packages (notebook_requirement nb) (import_module w) (pip_install w) packages env"

definition package_setup ::
  "notebook \<Rightarrow> 'env world \<Rightarrow> 'env machine \<Rightarrow> event list \<times> (exn + 'env)" where
  "package_setup nb w m = setup_loop nb w (notebook_packages nb) (python m)"



text \<open>The remote files or stores a run fetched as its input data.\<close>

fun is_fetch :: "event \<Rightarrow> bool" where
  "is_fetch (DownloadFile bucket key filename) = True"
| "is_fetch (OpenZarr store_root) = True"
| "is_fetch (HttpGet url) = True"
| "is_fetch _ = False"

definition fetches :: "event list \<Rightarrow> event list" where
  "fetches evs = filter is_fetch evs"

text \<open>
  The local state an event reads or writes: a package of the Python environment, or
  a file. Importing (or failing to import) a package reads it and pip writes the
  package its requirement names; \<^verbatim>\<open>download_file\<close> writes its \<open>Filename\<close>,
  \<^verbatim>\<open>open_raw\<close> reads its \<open>raw_file\<close>, \<^verbatim>\<open>rm -rf\<close> writes (removes) its path, and
  \<^verbatim>\<open>os.listdir()\<close> reads every entry of the working directory.
\<close>

datatype resource = Package string | File string

fun reads :: "event \<Rightarrow> resource \<Rightarrow> bool" where
  "reads (Imported package) r = (r = Package package)"
| "reads (ImportRaised package e) r = (r = Package package)"
| "reads (OpenRaw raw_file) r = (r = File raw_file)"
| "reads ListDir (File path) = (CHR ''/'' \<notin> set path)"
| "reads _ _ = False"

fun writes :: "event \<Rightarrow> resource \<Rightarrow> bool" where
  "writes (PipInstall req) r = (r = Package (requirement_name req))"
| "writes (DownloadFile bucket key filename) r = (r = File filename)"
| "writes (Remove path) r = (r = File path)"
| "writes _ _ = False"

definition notebook_reads :: "notebook \<Rightarrow> 'env world \<Rightarrow> 'env machine \<Rightarrow> resource \<Rightarrow> bool" where
  "notebook_reads nb w m r = (\<exists>ev \<in> set (fst (run_notebook nb w m)). reads ev r)"

definition notebook_writes :: "notebook \<Rightarrow> 'env world \<Rightarrow> 'env machine \<Rightarrow> resource \<Rightarrow> bool" where
  "notebook_writes nb w m r = (\<exists>ev \<in> set (fst (run_notebook nb w m)). writes ev r)"

text \<open>
  A world to run the notebooks in: the environment is the list of importable
  packages, every S3 object and every URL exists and holds its own address as
  content, the Zarr store is the small cruise, and rounding is exact.
\<close>

definition listed_world :: "string list world" where
  "listed_world =
     \<lparr>import_module = listed_import, pip_install = listed_pip,
      s3_object = (\<lambda>bucket key. Inr (bucket @ ''/'' @ key)),
      zarr_store = (\<lambda>store_root. Inr small_cruise),
      http_get = (\<lambda>url. Inr url),
      rounding = Finite\<rparr>"

definition fresh_machine :: "string list machine" where
  "fresh_machine = \<lparr>python = [], files = Map.empty\<rparr>"

section \<open>Properties of the package-setup cell\<close>

lemma fst_then_run:
  "fst (then_run r f) = fst r @ (case snd r of Inl e \<Rightarrow> [] | Inr x \<Rightarrow> fst (f x))"
  by (cases r) (auto simp: then_run_def split: sum.splits prod.splits)

lemma snd_then_run:
  "snd (then_run r f) = (case snd r of Inl e \<Rightarrow> Inl e | Inr x \<Rightarrow> snd (f x))"
  by (cases r) (auto simp: then_run_def split: sum.splits prod.splits)



lemma pip_requests_eq_import_errors:
  "pip_requests (fst (install_packages pin imp pip pkgs env)) =
   map pin (import_errors (fst (install_packages pin imp pip pkgs env)))"
proof (induction pkgs arbitrary: env)
  case Nil
  show ?case by simp
next
  case (Cons p ps)
  show ?case
  proof (cases "imp env p")
    case None
    then show ?thesis
      using Cons.IH [of env] by (cases "install_packages pin imp pip ps env") simp
  next
    case (Some e)
    show ?thesis
    proof (cases "is_ImportError e")
      case False
      with Some show ?thesis by simp
    next
      case True
      show ?thesis
      proof (cases "pip env (pin p)")
        case (Inl e')
        with Some True show ?thesis by simp
      next
        case (Inr env')
        with Some True show ?thesis
          using Cons.IH [of env'] by (cases "install_packages pin imp pip ps env'") simp
      qed
    qed
  qed
qed

lemma install_packages_all_importable:
  "\<forall>p \<in> set pkgs. imp env p = None \<Longrightarrow>
   install_packages pin imp pip pkgs env = (map Imported pkgs, Inr env)"
  by (induction pkgs) auto

lemma install_packages_Cons:
  "install_packages pin imp pip (p # ps) env =
     (case imp env p of
        None \<Rightarrow>
          (Imported p # fst (install_packages pin imp pip ps env),
           snd (install_packages pin imp pip ps env))
      | Some e \<Rightarrow>
          if is_ImportError e then
            (case pip env (pin p) of
               Inl e' \<Rightarrow> ([ImportRaised p e, PipInstall (pin p)], Inl e')
             | Inr env' \<Rightarrow>
                 (ImportRaised p e # PipInstall (pin p) #
                    fst (install_packages pin imp pip ps env'),
                  snd (install_packages pin imp pip ps env')))
          else ([ImportRaised p e], Inl e))"
  by (simp split: option.splits sum.splits prod.splits)

lemma install_packages_importable:
  "imp env p = None \<Longrightarrow>
   install_packages pin imp pip (p # pkgs) env =
     (Imported p # fst (install_packages pin imp pip pkgs env),
      snd (install_packages pin imp pip pkgs env))"
  by (simp split: prod.splits)

lemma install_packages_single:
  "pip_requests (fst (install_packages pin imp pip [p] env)) =
   (case imp env p of None \<Rightarrow> [] | Some e \<Rightarrow> if is_ImportError e then [pin p] else [])"
  by (simp split: option.splits sum.splits)

lemma pip_install_in_events:
  "PipInstall req \<in> set (fst (install_packages pin imp pip pkgs env)) \<Longrightarrow> req \<in> pin ` set pkgs"
proof (induction pkgs arbitrary: env)
  case Nil
  then show ?case by simp
next
  case (Cons p ps)
  show ?case
  proof (cases "imp env p")
    case None
    with Cons.prems have "PipInstall req \<in> set (fst (install_packages pin imp pip ps env))"
      by (simp split: prod.splits)
    from Cons.IH [OF this] show ?thesis by auto
  next
    case (Some e)
    show ?thesis
    proof (cases "is_ImportError e")
      case False
      with Some Cons.prems show ?thesis by simp
    next
      case True
      show ?thesis
      proof (cases "pip env (pin p)")
        case (Inl e')
        with Some True Cons.prems show ?thesis by simp
      next
        case (Inr env')
        with Some True Cons.prems have
          "req = pin p \<or> PipInstall req \<in> set (fst (install_packages pin imp pip ps env'))"
          by (simp split: prod.splits)
        with Cons.IH [of env'] show ?thesis by auto
      qed
    qed
  qed
qed

lemma import_error_then_pip:
  "ImportRaised p e \<in> set (fst (install_packages pin imp pip pkgs env)) \<Longrightarrow> is_ImportError e \<Longrightarrow>
   PipInstall (pin p) \<in> set (fst (install_packages pin imp pip pkgs env))"
proof (induction pkgs arbitrary: env)
  case Nil
  then show ?case by simp
next
  case (Cons q qs)
  show ?case
  proof (cases "imp env q")
    case None
    with Cons.prems have "ImportRaised p e \<in> set (fst (install_packages pin imp pip qs env))"
      by (simp add: install_packages_Cons del: install_packages.simps)
    from Cons.IH [OF this Cons.prems(2)] None show ?thesis
      by (simp add: install_packages_Cons del: install_packages.simps)
  next
    case (Some e0)
    show ?thesis
    proof (cases "is_ImportError e0")
      case False
      with Some Cons.prems show ?thesis by auto
    next
      case True
      show ?thesis
      proof (cases "pip env (pin q)")
        case (Inl e')
        with Some True Cons.prems show ?thesis by auto
      next
        case (Inr env')
        with Some True Cons.prems have
          "p = q \<or> ImportRaised p e \<in> set (fst (install_packages pin imp pip qs env'))"
          by (auto simp add: install_packages_Cons simp del: install_packages.simps)
        with Cons.IH [of env', OF _ Cons.prems(2)] Some True Inr show ?thesis
          by (auto simp add: install_packages_Cons simp del: install_packages.simps)
      qed
    qed
  qed
qed

lemma install_packages_append:
  "install_packages pin imp pip (ps @ qs) env =
     then_run (install_packages pin imp pip ps env) (install_packages pin imp pip qs)"
proof (induction ps arbitrary: env)
  case Nil
  show ?case by (simp add: then_run_def)
next
  case (Cons p ps)
  show ?case
  proof (cases "imp env p")
    case None
    then show ?thesis
      using Cons.IH [of env]
      by (cases "install_packages pin imp pip ps env")
        (auto simp: then_run_def split: sum.splits prod.splits)
  next
    case (Some e)
    show ?thesis
    proof (cases "is_ImportError e")
      case False
      with Some show ?thesis by (simp add: then_run_def)
    next
      case True
      show ?thesis
      proof (cases "pip env (pin p)")
        case (Inl x)
        with Some True show ?thesis by (simp add: then_run_def)
      next
        case (Inr env')
        with Some True show ?thesis
          using Cons.IH [of env']
          by (cases "install_packages pin imp pip ps env'")
            (auto simp: then_run_def split: sum.splits prod.splits)
      qed
    qed
  qed
qed

lemma import_attempts_complete:
  "snd (install_packages pin imp pip pkgs env) = Inr env' \<Longrightarrow>
   import_attempts (fst (install_packages pin imp pip pkgs env)) = pkgs"
proof (induction pkgs arbitrary: env)
  case Nil
  show ?case by simp
next
  case (Cons p ps)
  then show ?case
    by (auto simp add: install_packages_Cons simp del: install_packages.simps
        split: option.splits if_splits sum.splits)
qed

lemma pip_requests_independent:
  assumes "distinct pkgs"
    and "\<forall>p \<in> set pkgs. \<forall>q \<in> set pkgs. \<forall>env1 env2.
           pip env1 (pin p) = Inr env2 \<and> q \<noteq> p \<longrightarrow> imp env2 q = imp env1 q"
    and "snd (install_packages pin imp pip pkgs env) = Inr env'"
  shows "pip_requests (fst (install_packages pin imp pip pkgs env)) =
     map pin (filter (\<lambda>p. imp env p \<noteq> None) pkgs)"
  using assms
proof (induction pkgs arbitrary: env)
  case Nil
  show ?case by simp
next
  case (Cons p ps)
  have d: "distinct ps" and np: "p \<notin> set ps"
    using Cons.prems(1) by auto
  have ind: "\<forall>p \<in> set ps. \<forall>q \<in> set ps. \<forall>env1 env2.
           pip env1 (pin p) = Inr env2 \<and> q \<noteq> p \<longrightarrow> imp env2 q = imp env1 q"
    using Cons.prems(2) by auto
  show ?case
  proof (cases "imp env p")
    case None
    with Cons.prems(3) have "snd (install_packages pin imp pip ps env) = Inr env'"
      by (simp add: install_packages_Cons del: install_packages.simps)
    from Cons.IH [OF d ind this] None show ?thesis
      by (simp add: install_packages_Cons del: install_packages.simps)
  next
    case (Some e)
    with Cons.prems(3) have ie: "is_ImportError e"
      by (auto simp add: install_packages_Cons simp del: install_packages.simps split: if_splits)
    with Some Cons.prems(3) obtain env2 where env2: "pip env (pin p) = Inr env2"
      and rest: "snd (install_packages pin imp pip ps env2) = Inr env'"
      by (auto simp add: install_packages_Cons simp del: install_packages.simps split: sum.splits)
    have same: "imp env2 q = imp env q" if "q \<in> set ps" for q
    proof -
      from that np have "q \<noteq> p" by auto
      with Cons.prems(2) that env2 show ?thesis
        by (metis list.set_intros(1) list.set_intros(2))
    qed
    have "filter (\<lambda>q. imp env2 q \<noteq> None) ps = filter (\<lambda>q. imp env q \<noteq> None) ps"
      by (rule filter_cong) (simp_all add: same)
    with Cons.IH [OF d ind rest] Some ie env2 show ?thesis
      by (simp add: install_packages_Cons del: install_packages.simps)
  qed
qed

lemma pip_install_origin:
  "PipInstall req \<in> set (fst (install_packages pin imp pip pkgs env)) \<Longrightarrow>
   \<exists>q \<in> set pkgs. \<exists>env0 e. req = pin q \<and> imp env0 q = Some e \<and> is_ImportError e"
proof (induction pkgs arbitrary: env)
  case Nil
  then show ?case by simp
next
  case (Cons p ps)
  show ?case
  proof (cases "imp env p")
    case None
    with Cons.prems have "PipInstall req \<in> set (fst (install_packages pin imp pip ps env))"
      by (simp add: install_packages_Cons del: install_packages.simps)
    from Cons.IH [OF this] show ?thesis by auto
  next
    case (Some e)
    show ?thesis
    proof (cases "is_ImportError e")
      case False
      with Some Cons.prems show ?thesis by simp
    next
      case True
      show ?thesis
      proof (cases "pip env (pin p)")
        case (Inl e')
        with Some True Cons.prems have "req = pin p" by simp
        with Some True show ?thesis by auto
      next
        case (Inr env')
        with Some True Cons.prems have
          "req = pin p \<or> PipInstall req \<in> set (fst (install_packages pin imp pip ps env'))"
          by (simp add: install_packages_Cons del: install_packages.simps)
        then show ?thesis
        proof
          assume "req = pin p"
          with Some True show ?thesis by auto
        next
          assume "PipInstall req \<in> set (fst (install_packages pin imp pip ps env'))"
          from Cons.IH [OF this] show ?thesis by auto
        qed
      qed
    qed
  qed
qed

lemma chapter1_echopype_turn:
  assumes "snd (install_packages chapter1_requirement imp pip [''boto3'', ''botocore''] env) =
      Inr env2"
  shows "PipInstall ''echopype==0.8.4'' \<in> set (fst (chapter1_install imp pip env)) \<longleftrightarrow>
     (\<exists>e. imp env2 ''echopype'' = Some e \<and> is_ImportError e)"
proof -
  let ?A = "install_packages chapter1_requirement imp pip [''boto3'', ''botocore''] env"
  have split: "chapter1_install imp pip env =
      then_run ?A (install_packages chapter1_requirement imp pip [''echopype''])"
    using install_packages_append [of chapter1_requirement imp pip "[''boto3'', ''botocore'']"
        "[''echopype'']" env]
    by (simp add: chapter1_install_def chapter1_PACKAGES_def)
  have notA: "PipInstall ''echopype==0.8.4'' \<notin> set (fst ?A)"
  proof
    assume "PipInstall ''echopype==0.8.4'' \<in> set (fst ?A)"
    then have "''echopype==0.8.4'' \<in> chapter1_requirement ` set [''boto3'', ''botocore'']"
      by (rule pip_install_in_events)
    then show False by (simp add: chapter1_requirement_def)
  qed
  have evs: "fst (chapter1_install imp pip env) =
      fst ?A @ fst (install_packages chapter1_requirement imp pip [''echopype''] env2)"
    using assms by (simp add: split fst_then_run)
  show ?thesis
    unfolding evs using notA
    by (auto simp: chapter1_requirement_def split: option.splits sum.splits if_splits)
qed

text \<open>
  Claim C8. In the package-setup loop pip is called for a package exactly when
  importing it raised an \<open>ImportError\<close>. The loop takes every package of its list in
  turn. When the import returns, pip is not called and the environment is handed on
  unchanged; when it raises an \<open>ImportError\<close>, pip is called with the package's
  requirement and the loop goes on with the next package, in the environment pip left.
  So the requirement strings given to pip are, in order, those of the packages whose
  import raised an \<open>ImportError\<close>; every pip call answers such an import; a loop that
  returns has tried every package of its list; and where installing one package does
  not change whether another one imports, the packages installed are those that did not
  import at the start. In chapter 1 echopype is installed as \<open>echopype==0.8.4\<close>, never
  under the bare name, and that exactly when importing it raises an \<open>ImportError\<close> in
  the environment the turns of boto3 and botocore leave. All of this holds of the setup
  cell of each of the four notebooks, which is this loop over the notebook's own list.
\<close>

theorem pip_iff_import_error:
  "pip_requests (fst (install_packages pin imp pip pkgs env)) =
     map pin (import_errors (fst (install_packages pin imp pip pkgs env))) \<and>
   pip_requests (fst (install_packages pin imp pip [p] env)) =
     (case imp env p of None \<Rightarrow> [] | Some e \<Rightarrow> if is_ImportError e then [pin p] else []) \<and>
   (imp env p = None \<longrightarrow>
      install_packages pin imp pip (p # pkgs) env =
        (Imported p # fst (install_packages pin imp pip pkgs env),
         snd (install_packages pin imp pip pkgs env))) \<and>
   ((\<forall>q \<in> set pkgs. imp env q = None) \<longrightarrow>
      install_packages pin imp pip pkgs env = (map Imported pkgs, Inr env)) \<and>
   chapter1_requirement ''echopype'' = ''echopype==0.8.4'' \<and>
   PipInstall ''echopype'' \<notin> set (fst (chapter1_install imp pip env)) \<and>
   (\<forall>e. ImportRaised ''echopype'' e \<in> set (fst (chapter1_install imp pip env)) \<and> is_ImportError e \<longrightarrow>
      PipInstall ''echopype==0.8.4'' \<in> set (fst (chapter1_install imp pip env))) \<and>
   (imp env p = Some e \<and> is_ImportError e \<and> pip env (pin p) = Inr env' \<longrightarrow>
      install_packages pin imp pip (p # pkgs) env =
        (ImportRaised p e # PipInstall (pin p) # fst (install_packages pin imp pip pkgs env'),
         snd (install_packages pin imp pip pkgs env'))) \<and>
   (snd (install_packages pin imp pip ps env) = Inr env_mid \<longrightarrow>
      install_packages pin imp pip (ps @ qs) env =
        (fst (install_packages pin imp pip ps env) @ fst (install_packages pin imp pip qs env_mid),
         snd (install_packages pin imp pip qs env_mid))) \<and>
   (snd (install_packages pin imp pip pkgs env) = Inr env_end \<longrightarrow>
      import_attempts (fst (install_packages pin imp pip pkgs env)) = pkgs) \<and>
   (distinct pkgs \<and>
    (\<forall>a \<in> set pkgs. \<forall>b \<in> set pkgs. \<forall>env_a env_b.
       pip env_a (pin a) = Inr env_b \<and> b \<noteq> a \<longrightarrow> imp env_b b = imp env_a b) \<and>
    snd (install_packages pin imp pip pkgs env) = Inr env_end \<longrightarrow>
      pip_requests (fst (install_packages pin imp pip pkgs env)) =
        map pin (filter (\<lambda>a. imp env a \<noteq> None) pkgs)) \<and>
   (PipInstall req \<in> set (fst (install_packages pin imp pip pkgs env)) \<longrightarrow>
      (\<exists>q \<in> set pkgs. \<exists>env0 e0. req = pin q \<and> imp env0 q = Some e0 \<and> is_ImportError e0)) \<and>
   (snd (install_packages chapter1_requirement imp pip [''boto3'', ''botocore''] env) = Inr env_third \<longrightarrow>
      (PipInstall ''echopype==0.8.4'' \<in> set (fst (chapter1_install imp pip env)) \<longleftrightarrow>
       (\<exists>e0. imp env_third ''echopype'' = Some e0 \<and> is_ImportError e0))) \<and>
   pip_requests (fst (package_setup nb w m)) =
     map (notebook_requirement nb) (import_errors (fst (package_setup nb w m))) \<and>
   (snd (package_setup nb w m) = Inr installed \<longrightarrow>
      import_attempts (fst (package_setup nb w m)) = notebook_packages nb)"
proof -
  have bare: "PipInstall ''echopype'' \<notin> set (fst (chapter1_install imp pip env))"
  proof
    assume "PipInstall ''echopype'' \<in> set (fst (chapter1_install imp pip env))"
    then have "''echopype'' \<in> chapter1_requirement ` set chapter1_PACKAGES"
      unfolding chapter1_install_def by (rule pip_install_in_events)
    then show False
      by (simp add: chapter1_requirement_def chapter1_PACKAGES_def)
  qed
  have pinned: "\<forall>e. ImportRaised ''echopype'' e \<in> set (fst (chapter1_install imp pip env)) \<and>
      is_ImportError e \<longrightarrow>
      PipInstall ''echopype==0.8.4'' \<in> set (fst (chapter1_install imp pip env))"
  proof (intro allI impI)
    fix e
    assume "ImportRaised ''echopype'' e \<in> set (fst (chapter1_install imp pip env)) \<and>
      is_ImportError e"
    then show "PipInstall ''echopype==0.8.4'' \<in> set (fst (chapter1_install imp pip env))"
      using import_error_then_pip [of "''echopype''" e chapter1_requirement imp pip
          chapter1_PACKAGES env]
      by (simp add: chapter1_install_def chapter1_requirement_def)
  qed
  have pin1: "chapter1_requirement ''echopype'' = ''echopype==0.8.4''"
    by (simp add: chapter1_requirement_def)
  have c3: "imp env p = None \<longrightarrow>
      install_packages pin imp pip (p # pkgs) env =
        (Imported p # fst (install_packages pin imp pip pkgs env),
         snd (install_packages pin imp pip pkgs env))"
    using install_packages_importable [of imp env p pin pip pkgs] by blast
  have c4: "(\<forall>q \<in> set pkgs. imp env q = None) \<longrightarrow>
      install_packages pin imp pip pkgs env = (map Imported pkgs, Inr env)"
    using install_packages_all_importable [of pkgs imp env pin pip] by blast
  have goes_on: "imp env p = Some e \<and> is_ImportError e \<and> pip env (pin p) = Inr env' \<longrightarrow>
      install_packages pin imp pip (p # pkgs) env =
        (ImportRaised p e # PipInstall (pin p) # fst (install_packages pin imp pip pkgs env'),
         snd (install_packages pin imp pip pkgs env'))"
    by (simp add: install_packages_Cons del: install_packages.simps)
  have position: "snd (install_packages pin imp pip ps env) = Inr env_mid \<longrightarrow>
      install_packages pin imp pip (ps @ qs) env =
        (fst (install_packages pin imp pip ps env) @ fst (install_packages pin imp pip qs env_mid),
         snd (install_packages pin imp pip qs env_mid))"
    by (simp add: install_packages_append prod_eq_iff fst_then_run snd_then_run)
  have tried: "snd (install_packages pin imp pip pkgs env) = Inr env_end \<longrightarrow>
      import_attempts (fst (install_packages pin imp pip pkgs env)) = pkgs"
    using import_attempts_complete [of pin imp pip pkgs env env_end] by blast
  have closed: "distinct pkgs \<and>
    (\<forall>a \<in> set pkgs. \<forall>b \<in> set pkgs. \<forall>env_a env_b.
       pip env_a (pin a) = Inr env_b \<and> b \<noteq> a \<longrightarrow> imp env_b b = imp env_a b) \<and>
    snd (install_packages pin imp pip pkgs env) = Inr env_end \<longrightarrow>
      pip_requests (fst (install_packages pin imp pip pkgs env)) =
        map pin (filter (\<lambda>a. imp env a \<noteq> None) pkgs)"
    using pip_requests_independent [of pkgs pip pin imp env env_end] by blast
  have origin: "PipInstall req \<in> set (fst (install_packages pin imp pip pkgs env)) \<longrightarrow>
      (\<exists>q \<in> set pkgs. \<exists>env0 e0. req = pin q \<and> imp env0 q = Some e0 \<and> is_ImportError e0)"
    using pip_install_origin [of req pin imp pip pkgs env] by blast
  have echopype: "snd (install_packages chapter1_requirement imp pip [''boto3'', ''botocore''] env) =
      Inr env_third \<longrightarrow>
      (PipInstall ''echopype==0.8.4'' \<in> set (fst (chapter1_install imp pip env)) \<longleftrightarrow>
       (\<exists>e0. imp env_third ''echopype'' = Some e0 \<and> is_ImportError e0))"
    using chapter1_echopype_turn [of imp pip env env_third] by blast
  have cell_requests: "pip_requests (fst (package_setup nb w m)) =
     map (notebook_requirement nb) (import_errors (fst (package_setup nb w m)))"
    unfolding package_setup_def setup_loop_def by (rule pip_requests_eq_import_errors)
  have cell_tried: "snd (package_setup nb w m) = Inr installed \<longrightarrow>
      import_attempts (fst (package_setup nb w m)) = notebook_packages nb"
    unfolding package_setup_def setup_loop_def
    using import_attempts_complete [of "notebook_requirement nb" "import_module w"
        "pip_install w" "notebook_packages nb" "python m" installed]
    by blast
  show ?thesis
    using pip_requests_eq_import_errors [of pin imp pip pkgs env]
      install_packages_single [of pin imp pip p env]
      c3 c4 pin1 bare pinned goes_on position tried closed origin echopype
      cell_requests cell_tried
    by (intro conjI)
qed

theorem pip_iff_import_error_witness:
  "pip_requests (fst (package_setup Echofish_Chapter_3 listed_world fresh_machine)) =
     [''numpy'', ''pandas'', ''geopandas==0.13.1'', ''matplotlib'', ''xarray'', ''zarr'',
      ''folium'', ''boto3'', ''s3fs'', ''mapclassify''] \<and>
   import_attempts (fst (package_setup Echofish_Chapter_3 listed_world fresh_machine)) =
     [''numpy'', ''pandas'', ''geopandas'', ''matplotlib'', ''xarray'', ''zarr'', ''folium'',
      ''boto3'', ''s3fs'', ''mapclassify''] \<and>
   chapter1_install listed_import listed_pip [] =
     ([ImportRaised ''boto3'' ModuleNotFoundError, PipInstall ''boto3'',
       ImportRaised ''botocore'' ModuleNotFoundError, PipInstall ''botocore'',
       ImportRaised ''echopype'' ModuleNotFoundError, PipInstall ''echopype==0.8.4''],
      Inr [''echopype'', ''botocore'', ''boto3'']) \<and>
   pip_requests (fst (chapter1_install listed_import listed_pip [])) =
     [''boto3'', ''botocore'', ''echopype==0.8.4''] \<and>
   import_attempts (fst (chapter1_install listed_import listed_pip [])) =
     [''boto3'', ''botocore'', ''echopype''] \<and>
   PipInstall ''echopype==0.8.4'' \<in> set (fst (chapter1_install listed_import listed_pip [])) \<and>
   PipInstall ''echopype==0.8.4'' \<notin>
     set (fst (chapter1_install listed_import listed_pip [''echopype''])) \<and>
   pip_requests (fst (chapter1_install listed_import listed_pip [''echopype''])) =
     [''boto3'', ''botocore''] \<and>
   chapter1_install listed_import listed_pip [''boto3'', ''botocore''] =
     ([Imported ''boto3'', Imported ''botocore'',
       ImportRaised ''echopype'' ModuleNotFoundError, PipInstall ''echopype==0.8.4''],
      Inr [''echopype'', ''boto3'', ''botocore'']) \<and>
   pip_requests (fst (chapter1_install listed_import listed_pip [''boto3'', ''botocore''])) =
     [''echopype==0.8.4''] \<and>
   import_errors (fst (chapter1_install listed_import listed_pip [''boto3'', ''botocore''])) =
     [''echopype''] \<and>
   listed_import [''boto3'', ''botocore''] ''boto3'' = None \<and>
   PipInstall ''echopype'' \<notin> set (fst (chapter1_install listed_import listed_pip [''boto3'', ''botocore''])) \<and>
   PipInstall ''echopype==0.8.4'' \<in> set (fst (chapter1_install listed_import listed_pip [''boto3'', ''botocore''])) \<and>
   list_all (\<lambda>q. listed_import [''echopype'', ''boto3'', ''botocore''] q = None) chapter1_PACKAGES \<and>
   chapter1_install listed_import listed_pip [''echopype'', ''boto3'', ''botocore''] =
     (map Imported chapter1_PACKAGES, Inr [''echopype'', ''boto3'', ''botocore''])"
proof -
  note fresh = pip_iff_import_error
    [where pin = chapter1_requirement and imp = listed_import and pip = listed_pip
      and pkgs = chapter1_PACKAGES and env = "[]" and p = "''boto3''"
      and e = ModuleNotFoundError and env' = "[''boto3'']"
      and ps = "[''boto3'', ''botocore'']" and qs = "[''echopype'']"
      and env_mid = "[''botocore'', ''boto3'']"
      and env_end = "[''echopype'', ''botocore'', ''boto3'']"
      and req = "''echopype==0.8.4''" and env_third = "[''botocore'', ''boto3'']"
      and nb = Echofish_Chapter_1 and w = listed_world and m = fresh_machine
      and installed = "[]"]
  have first_two: "install_packages chapter1_requirement listed_import listed_pip
      [''boto3'', ''botocore''] [] =
     ([ImportRaised ''boto3'' ModuleNotFoundError, PipInstall ''boto3'',
       ImportRaised ''botocore'' ModuleNotFoundError, PipInstall ''botocore''],
      Inr [''botocore'', ''boto3''])"
    by (simp add: chapter1_requirement_def listed_import_def listed_pip_def requirement_name_def)
  have third: "install_packages chapter1_requirement listed_import listed_pip
      [''echopype''] [''botocore'', ''boto3''] =
     ([ImportRaised ''echopype'' ModuleNotFoundError, PipInstall ''echopype==0.8.4''],
      Inr [''echopype'', ''botocore'', ''boto3''])"
    by (simp add: chapter1_requirement_def listed_import_def listed_pip_def requirement_name_def)
  from fresh have "snd (install_packages chapter1_requirement listed_import listed_pip
        [''boto3'', ''botocore''] []) = Inr [''botocore'', ''boto3''] \<longrightarrow>
      install_packages chapter1_requirement listed_import listed_pip
        ([''boto3'', ''botocore''] @ [''echopype'']) [] =
        (fst (install_packages chapter1_requirement listed_import listed_pip
            [''boto3'', ''botocore''] []) @
         fst (install_packages chapter1_requirement listed_import listed_pip
            [''echopype''] [''botocore'', ''boto3'']),
         snd (install_packages chapter1_requirement listed_import listed_pip
            [''echopype''] [''botocore'', ''boto3'']))"
    by (elim conjE)
  then have run0: "chapter1_install listed_import listed_pip [] =
     ([ImportRaised ''boto3'' ModuleNotFoundError, PipInstall ''boto3'',
       ImportRaised ''botocore'' ModuleNotFoundError, PipInstall ''botocore'',
       ImportRaised ''echopype'' ModuleNotFoundError, PipInstall ''echopype==0.8.4''],
      Inr [''echopype'', ''botocore'', ''boto3''])"
    unfolding first_two third by (simp add: chapter1_install_def chapter1_PACKAGES_def)
  have done0: "snd (install_packages chapter1_requirement listed_import listed_pip
      chapter1_PACKAGES []) = Inr [''echopype'', ''botocore'', ''boto3'']"
    using run0 by (simp add: chapter1_install_def)
  have indep: "\<forall>a \<in> set chapter1_PACKAGES. \<forall>b \<in> set chapter1_PACKAGES. \<forall>env_a env_b.
       listed_pip env_a (chapter1_requirement a) = Inr env_b \<and> b \<noteq> a \<longrightarrow>
       listed_import env_b b = listed_import env_a b"
    by (auto simp: chapter1_PACKAGES_def chapter1_requirement_def listed_pip_def
        listed_import_def requirement_name_def)
  have dist: "distinct chapter1_PACKAGES"
    by (simp add: chapter1_PACKAGES_def)
  from fresh have "distinct chapter1_PACKAGES \<and>
    (\<forall>a \<in> set chapter1_PACKAGES. \<forall>b \<in> set chapter1_PACKAGES. \<forall>env_a env_b.
       listed_pip env_a (chapter1_requirement a) = Inr env_b \<and> b \<noteq> a \<longrightarrow>
       listed_import env_b b = listed_import env_a b) \<and>
    snd (install_packages chapter1_requirement listed_import listed_pip chapter1_PACKAGES []) =
      Inr [''echopype'', ''botocore'', ''boto3''] \<longrightarrow>
      pip_requests (fst (install_packages chapter1_requirement listed_import listed_pip
          chapter1_PACKAGES [])) =
        map chapter1_requirement (filter (\<lambda>a. listed_import [] a \<noteq> None) chapter1_PACKAGES)"
    by (elim conjE)
  with dist indep done0 have "pip_requests (fst (install_packages chapter1_requirement
      listed_import listed_pip chapter1_PACKAGES [])) =
        map chapter1_requirement (filter (\<lambda>a. listed_import [] a \<noteq> None) chapter1_PACKAGES)"
    by blast
  then have reqs0: "pip_requests (fst (chapter1_install listed_import listed_pip [])) =
     [''boto3'', ''botocore'', ''echopype==0.8.4'']"
    by (simp add: chapter1_install_def chapter1_PACKAGES_def chapter1_requirement_def
        listed_import_def)
  from fresh have "snd (install_packages chapter1_requirement listed_import listed_pip
        chapter1_PACKAGES []) = Inr [''echopype'', ''botocore'', ''boto3''] \<longrightarrow>
      import_attempts (fst (install_packages chapter1_requirement listed_import listed_pip
        chapter1_PACKAGES [])) = chapter1_PACKAGES"
    by (elim conjE)
  with done0 have tried0: "import_attempts (fst (chapter1_install listed_import listed_pip [])) =
     [''boto3'', ''botocore'', ''echopype'']"
    by (simp add: chapter1_install_def chapter1_PACKAGES_def)
  from fresh have "snd (install_packages chapter1_requirement listed_import listed_pip
        [''boto3'', ''botocore''] []) = Inr [''botocore'', ''boto3''] \<longrightarrow>
      (PipInstall ''echopype==0.8.4'' \<in> set (fst (chapter1_install listed_import listed_pip [])) \<longleftrightarrow>
       (\<exists>e0. listed_import [''botocore'', ''boto3''] ''echopype'' = Some e0 \<and> is_ImportError e0))"
    by (elim conjE)
  then have pinned0: "PipInstall ''echopype==0.8.4'' \<in>
      set (fst (chapter1_install listed_import listed_pip []))"
    unfolding first_two by (simp add: listed_import_def)
  have first_two_there: "install_packages chapter1_requirement listed_import listed_pip
      [''boto3'', ''botocore''] [''echopype''] =
     ([ImportRaised ''boto3'' ModuleNotFoundError, PipInstall ''boto3'',
       ImportRaised ''botocore'' ModuleNotFoundError, PipInstall ''botocore''],
      Inr [''botocore'', ''boto3'', ''echopype''])"
    by (simp add: chapter1_requirement_def listed_import_def listed_pip_def requirement_name_def)
  have "snd (install_packages chapter1_requirement listed_import listed_pip
        [''boto3'', ''botocore''] [''echopype'']) = Inr [''botocore'', ''boto3'', ''echopype''] \<longrightarrow>
      (PipInstall ''echopype==0.8.4'' \<in>
         set (fst (chapter1_install listed_import listed_pip [''echopype''])) \<longleftrightarrow>
       (\<exists>e0. listed_import [''botocore'', ''boto3'', ''echopype''] ''echopype'' = Some e0 \<and>
          is_ImportError e0))"
    using pip_iff_import_error
      [where pin = chapter1_requirement and imp = listed_import and pip = listed_pip
        and pkgs = chapter1_PACKAGES and env = "[''echopype'']" and p = "''boto3''"
        and e = ModuleNotFoundError and env' = "[''boto3'', ''echopype'']"
        and ps = "[''boto3'', ''botocore'']" and qs = "[''echopype'']"
        and env_mid = "[''botocore'', ''boto3'', ''echopype'']"
        and env_end = "[''botocore'', ''boto3'', ''echopype'']"
        and req = "''echopype==0.8.4''" and env_third = "[''botocore'', ''boto3'', ''echopype'']"
        and nb = Echofish_Chapter_1 and w = listed_world and m = fresh_machine
        and installed = "[]"]
    by (elim conjE)
  then have there: "PipInstall ''echopype==0.8.4'' \<notin>
      set (fst (chapter1_install listed_import listed_pip [''echopype'']))"
    unfolding first_two_there by (simp add: listed_import_def)
  have reqs_there: "pip_requests (fst (chapter1_install listed_import listed_pip [''echopype''])) =
     [''boto3'', ''botocore'']"
    by (simp add: chapter1_install_def chapter1_PACKAGES_def chapter1_requirement_def
        listed_import_def listed_pip_def requirement_name_def)
  have run: "chapter1_install listed_import listed_pip [''boto3'', ''botocore''] =
     ([Imported ''boto3'', Imported ''botocore'',
       ImportRaised ''echopype'' ModuleNotFoundError, PipInstall ''echopype==0.8.4''],
      Inr [''echopype'', ''boto3'', ''botocore''])"
    by (simp add: chapter1_install_def chapter1_PACKAGES_def chapter1_requirement_def
        listed_import_def listed_pip_def requirement_name_def)
  have ok: "list_all (\<lambda>q. listed_import [''echopype'', ''boto3'', ''botocore''] q = None)
      chapter1_PACKAGES"
    by (simp add: chapter1_PACKAGES_def listed_import_def)
  have old: "chapter1_install listed_import listed_pip [''boto3'', ''botocore''] =
     ([Imported ''boto3'', Imported ''botocore'',
       ImportRaised ''echopype'' ModuleNotFoundError, PipInstall ''echopype==0.8.4''],
      Inr [''echopype'', ''boto3'', ''botocore'']) \<and>
   pip_requests (fst (chapter1_install listed_import listed_pip [''boto3'', ''botocore''])) =
     [''echopype==0.8.4''] \<and>
   import_errors (fst (chapter1_install listed_import listed_pip [''boto3'', ''botocore''])) =
     [''echopype''] \<and>
   listed_import [''boto3'', ''botocore''] ''boto3'' = None \<and>
   PipInstall ''echopype'' \<notin> set (fst (chapter1_install listed_import listed_pip [''boto3'', ''botocore''])) \<and>
   PipInstall ''echopype==0.8.4'' \<in> set (fst (chapter1_install listed_import listed_pip [''boto3'', ''botocore''])) \<and>
   list_all (\<lambda>q. listed_import [''echopype'', ''boto3'', ''botocore''] q = None) chapter1_PACKAGES \<and>
   chapter1_install listed_import listed_pip [''echopype'', ''boto3'', ''botocore''] =
     (map Imported chapter1_PACKAGES, Inr [''echopype'', ''boto3'', ''botocore''])"
  proof -
    have bare: "PipInstall ''echopype'' \<notin>
        set (fst (chapter1_install listed_import listed_pip [''boto3'', ''botocore'']))"
      using pip_iff_import_error
        [where imp = listed_import and pip = listed_pip and env = "[''boto3'', ''botocore'']",
          THEN conjunct2, THEN conjunct2, THEN conjunct2, THEN conjunct2, THEN conjunct2,
          THEN conjunct1] .
    have "(\<forall>q \<in> set chapter1_PACKAGES.
          listed_import [''echopype'', ''boto3'', ''botocore''] q = None) \<longrightarrow>
        install_packages chapter1_requirement listed_import listed_pip chapter1_PACKAGES
          [''echopype'', ''boto3'', ''botocore''] =
        (map Imported chapter1_PACKAGES, Inr [''echopype'', ''boto3'', ''botocore''])"
      using pip_iff_import_error
        [where pin = chapter1_requirement and imp = listed_import and pip = listed_pip
          and pkgs = chapter1_PACKAGES and env = "[''echopype'', ''boto3'', ''botocore'']",
          THEN conjunct2, THEN conjunct2, THEN conjunct2, THEN conjunct1] .
    with ok have all_there: "chapter1_install listed_import listed_pip
        [''echopype'', ''boto3'', ''botocore''] =
        (map Imported chapter1_PACKAGES, Inr [''echopype'', ''boto3'', ''botocore''])"
      by (simp add: chapter1_install_def list_all_iff)
    have "pip_requests (fst (install_packages chapter1_requirement listed_import listed_pip
          chapter1_PACKAGES [''boto3'', ''botocore''])) =
        map chapter1_requirement (import_errors (fst (install_packages chapter1_requirement
          listed_import listed_pip chapter1_PACKAGES [''boto3'', ''botocore''])))"
      using pip_iff_import_error
        [where pin = chapter1_requirement and imp = listed_import and pip = listed_pip
          and pkgs = chapter1_PACKAGES and env = "[''boto3'', ''botocore'']",
          THEN conjunct1] .
    then have reqs: "pip_requests (fst (chapter1_install listed_import listed_pip
        [''boto3'', ''botocore''])) = [''echopype==0.8.4'']"
      unfolding chapter1_install_def [symmetric] run by (simp add: chapter1_requirement_def)
    have errs: "import_errors (fst (chapter1_install listed_import listed_pip
        [''boto3'', ''botocore''])) = [''echopype'']"
      unfolding run by simp
    have imp: "listed_import [''boto3'', ''botocore''] ''boto3'' = None"
      by (simp add: listed_import_def)
    have pinned: "PipInstall ''echopype==0.8.4'' \<in>
        set (fst (chapter1_install listed_import listed_pip [''boto3'', ''botocore'']))"
      unfolding run by simp
    from run reqs errs imp bare pinned ok all_there show ?thesis
      by (intro conjI)
  qed
  have errs3: "import_errors (fst (package_setup Echofish_Chapter_3 listed_world fresh_machine)) =
      chapter3_PACKAGES \<and>
    (\<exists>installed. snd (package_setup Echofish_Chapter_3 listed_world fresh_machine) =
      Inr installed)"
    by (simp add: package_setup_def setup_loop_def chapter3_PACKAGES_def chapter3_requirement_def
        listed_world_def fresh_machine_def listed_import_def listed_pip_def requirement_name_def)
  then obtain installed where
    installed: "snd (package_setup Echofish_Chapter_3 listed_world fresh_machine) = Inr installed"
    by blast
  note cell = pip_iff_import_error
    [where nb = Echofish_Chapter_3 and w = listed_world and m = fresh_machine
      and installed = installed,
      THEN conjunct2, THEN conjunct2, THEN conjunct2, THEN conjunct2, THEN conjunct2,
      THEN conjunct2, THEN conjunct2, THEN conjunct2, THEN conjunct2, THEN conjunct2,
      THEN conjunct2, THEN conjunct2, THEN conjunct2]
  from cell errs3 have reqs_run: "pip_requests (fst (package_setup Echofish_Chapter_3 listed_world
      fresh_machine)) =
     [''numpy'', ''pandas'', ''geopandas==0.13.1'', ''matplotlib'', ''xarray'', ''zarr'',
      ''folium'', ''boto3'', ''s3fs'', ''mapclassify'']"
    by (simp add: chapter3_PACKAGES_def chapter3_requirement_def)
  from cell installed have tried_run: "import_attempts (fst (package_setup Echofish_Chapter_3
      listed_world fresh_machine)) =
     [''numpy'', ''pandas'', ''geopandas'', ''matplotlib'', ''xarray'', ''zarr'', ''folium'',
      ''boto3'', ''s3fs'', ''mapclassify'']"
    by (simp add: chapter3_PACKAGES_def)
  from reqs_run tried_run run0 reqs0 tried0 pinned0 there reqs_there old show ?thesis
    by (intro conjI) (elim conjE, assumption)+
qed



lemma download_files_Cons:
  "download_files s3 (n # rest) fs =
     (case s3 chapter1_bucket_name (raw_key n) of
        Inl e \<Rightarrow> ([], Inl e)
      | Inr body \<Rightarrow>
          (DownloadFile chapter1_bucket_name (raw_key n) (basename n) #
             fst (download_files s3 rest (fs(basename n \<mapsto> body))),
           snd (download_files s3 rest (fs(basename n \<mapsto> body)))))"
  by (simp split: sum.splits prod.splits)


section \<open>Properties of the chapter 2 arrays\<close>

lemma select_times_holds: "holds select_times d t \<longleftrightarrow> start_time < t \<and> t < end_time"
  by (simp add: select_times_def)

lemma flt_in_range:
  "flt_less start_depth d \<and> flt_less d end_depth \<longleftrightarrow> (\<exists>x. d = Finite x \<and> 0 < x \<and> x < 500)"
  by (cases d) (auto simp: start_depth_def end_depth_def)

lemma select_depths_holds:
  "holds select_depths d t \<longleftrightarrow> (\<exists>x. d = Finite x \<and> 0 < x \<and> x < 500)"
  using flt_in_range [of d] by (simp add: select_depths_def)

lemma select_both:
  "mask_and select_times select_depths =
   GridMask (\<lambda>d t. holds select_times d t \<and> holds select_depths d t)"
  by (simp add: select_times_def select_depths_def)

lemma chapter2_arrays_Inr:
  assumes "chapter2_arrays rnd cruise = Inr nb"
  shows "\<exists>s38 s18 s120 s200.
    sel_frequency cruise 38000 = Inr s38 \<and> sel_frequency cruise 18000 = Inr s18 \<and>
    sel_frequency cruise 120000 = Inr s120 \<and> sel_frequency cruise 200000 = Inr s200 \<and>
    Sv_38 nb = where_drop s38 select_times \<and>
    Sv_38_subset nb = where_drop (Sv_38 nb) select_depths \<and>
    Sv_18 nb = where_drop s18 (mask_and select_times select_depths) \<and>
    Sv_120 nb = where_drop s120 (mask_and select_times select_depths) \<and>
    Sv_200 nb = where_drop s200 (mask_and select_times select_depths) \<and>
    Sv_120_subset nb = where_drop (Sv_120 nb) select_depths \<and>
    Sv_select_diff nb = da_sub rnd (Sv_120 nb) (Sv_38 nb) \<and>
    Sv_select_diff_dropna nb = dropna_depth (Sv_select_diff nb)"
  using assms
  by (auto simp: chapter2_arrays_def Let_def split: sum.splits)

lemma sel_frequency_Inr:
  "sel_frequency ds f = Inr a \<Longrightarrow>
   depth a = ds_depth ds \<and> time a = ds_time ds \<and> sample a = (\<lambda>d t. ds_Sv ds d t f)"
  by (auto simp: sel_frequency_def split: if_splits)

lemma chapter2_arrays_total:
  assumes "{18000, 38000, 120000, 200000} \<subseteq> set (ds_frequency cruise)"
  shows "\<exists>nb. chapter2_arrays rnd cruise = Inr nb"
  using assms by (simp add: chapter2_arrays_def sel_frequency_def Let_def)


lemma time_where_drop: "t \<in> set (time (where_drop a m)) \<Longrightarrow> t \<in> set (time a)"
  by (cases m) auto

lemma depth_where_drop: "d \<in> set (depth (where_drop a m)) \<Longrightarrow> d \<in> set (depth a)"
  by (cases m) auto












lemma small_cruise_runs: "\<exists>nb. chapter2_arrays Finite small_cruise = Inr nb"
  by (rule chapter2_arrays_total) (simp add: small_cruise_def)


text \<open>
  Claim C1. \<open>Sv_select_diff\<close> is the sample-wise difference of \<open>Sv_120\<close> and
  \<open>Sv_38\<close>: it holds exactly the depth and time labels both arrays hold, and at each of
  them its sample is the sample of \<open>Sv_120\<close> (the cruise's Sv at 120000 Hz) minus the
  sample of \<open>Sv_38\<close> (the cruise's Sv at 38000 Hz). Where both samples are finite,
  \<open>x\<close> and \<open>y\<close>, that is the difference \<open>x - y\<close> in the array's rounding; it is NaN
  whenever either operand is NaN, and it follows IEEE arithmetic where an operand is
  infinite. The \<open>dropna\<close> that follows removes exactly the depth labels with a NaN
  sample and changes nothing else.
\<close>

theorem frequency_differencing:
  assumes run: "chapter2_arrays rnd cruise = Inr nb"
  shows "(\<forall>d \<in> set (depth (Sv_120 nb)) \<inter> set (depth (Sv_38 nb)).
          \<forall>t \<in> set (time (Sv_120 nb)) \<inter> set (time (Sv_38 nb)).
            d \<in> set (depth (Sv_select_diff nb)) \<and> t \<in> set (time (Sv_select_diff nb)) \<and>
            sample (Sv_select_diff nb) d t =
              flt_sub rnd (sample (Sv_120 nb) d t) (sample (Sv_38 nb) d t) \<and>
            sample (Sv_120 nb) d t = ds_Sv cruise d t 120000 \<and>
            sample (Sv_38 nb) d t = ds_Sv cruise d t 38000 \<and>
            (sample (Sv_120 nb) d t = NaN \<or> sample (Sv_38 nb) d t = NaN \<longrightarrow>
               sample (Sv_select_diff nb) d t = NaN) \<and>
            (\<forall>x y. sample (Sv_120 nb) d t = Finite x \<and> sample (Sv_38 nb) d t = Finite y \<longrightarrow>
               sample (Sv_select_diff nb) d t = rnd (x - y)) \<and>
            (\<forall>x y. ds_Sv cruise d t 120000 = Finite x \<and> ds_Sv cruise d t 38000 = Finite y \<longrightarrow>
               sample (Sv_select_diff nb) d t = rnd (x - y)) \<and>
            (sample (Sv_120 nb) d t = PosInf \<and> sample (Sv_38 nb) d t \<noteq> NaN \<and>
             sample (Sv_38 nb) d t \<noteq> PosInf \<longrightarrow> sample (Sv_select_diff nb) d t = PosInf) \<and>
            (sample (Sv_120 nb) d t = NegInf \<and> sample (Sv_38 nb) d t \<noteq> NaN \<and>
             sample (Sv_38 nb) d t \<noteq> NegInf \<longrightarrow> sample (Sv_select_diff nb) d t = NegInf) \<and>
            (\<forall>x. sample (Sv_120 nb) d t = Finite x \<and> sample (Sv_38 nb) d t = PosInf \<longrightarrow>
               sample (Sv_select_diff nb) d t = NegInf) \<and>
            (\<forall>x. sample (Sv_120 nb) d t = Finite x \<and> sample (Sv_38 nb) d t = NegInf \<longrightarrow>
               sample (Sv_select_diff nb) d t = PosInf) \<and>
            (sample (Sv_120 nb) d t = sample (Sv_38 nb) d t \<and>
             sample (Sv_120 nb) d t \<in> {PosInf, NegInf} \<longrightarrow>
               sample (Sv_select_diff nb) d t = NaN)) \<and>
         set (depth (Sv_select_diff nb)) = set (depth (Sv_120 nb)) \<inter> set (depth (Sv_38 nb)) \<and>
         set (time (Sv_select_diff nb)) = set (time (Sv_120 nb)) \<inter> set (time (Sv_38 nb)) \<and>
         depth (Sv_select_diff_dropna nb) =
           filter (\<lambda>d. \<not> (\<exists>t \<in> set (time (Sv_select_diff nb)). sample (Sv_select_diff nb) d t = NaN))
             (depth (Sv_select_diff nb)) \<and>
         time (Sv_select_diff_dropna nb) = time (Sv_select_diff nb) \<and>
         sample (Sv_select_diff_dropna nb) = sample (Sv_select_diff nb)"
proof -
  from chapter2_arrays_Inr [OF run] obtain s38 s120 where
    sel: "sel_frequency cruise 38000 = Inr s38" "sel_frequency cruise 120000 = Inr s120" and
    a38: "Sv_38 nb = where_drop s38 select_times" and
    a120: "Sv_120 nb = where_drop s120 (mask_and select_times select_depths)" and
    diff: "Sv_select_diff nb = da_sub rnd (Sv_120 nb) (Sv_38 nb)" and
    drop: "Sv_select_diff_dropna nb = dropna_depth (Sv_select_diff nb)"
    by blast
  have v38: "sample (Sv_38 nb) d t = ds_Sv cruise d t 38000"
    if "t \<in> set (time (Sv_38 nb))" for d t
    using that sel_frequency_Inr [OF sel(1)] by (simp add: a38 select_times_def)
  have v120: "sample (Sv_120 nb) d t = ds_Sv cruise d t 120000"
    if "d \<in> set (depth (Sv_120 nb))" "t \<in> set (time (Sv_120 nb))" for d t
    using that sel_frequency_Inr [OF sel(2)]
    by (auto simp: a120 select_both select_times_holds select_depths_holds)
  have s: "sample (Sv_select_diff nb) d t =
      flt_sub rnd (sample (Sv_120 nb) d t) (sample (Sv_38 nb) d t)" for d t
    by (simp add: diff da_sub_def)
  have c1: "d \<in> set (depth (Sv_select_diff nb)) \<and> t \<in> set (time (Sv_select_diff nb)) \<and>
            sample (Sv_select_diff nb) d t =
              flt_sub rnd (sample (Sv_120 nb) d t) (sample (Sv_38 nb) d t) \<and>
            sample (Sv_120 nb) d t = ds_Sv cruise d t 120000 \<and>
            sample (Sv_38 nb) d t = ds_Sv cruise d t 38000 \<and>
            (sample (Sv_120 nb) d t = NaN \<or> sample (Sv_38 nb) d t = NaN \<longrightarrow>
               sample (Sv_select_diff nb) d t = NaN) \<and>
            (\<forall>x y. sample (Sv_120 nb) d t = Finite x \<and> sample (Sv_38 nb) d t = Finite y \<longrightarrow>
               sample (Sv_select_diff nb) d t = rnd (x - y)) \<and>
            (\<forall>x y. ds_Sv cruise d t 120000 = Finite x \<and> ds_Sv cruise d t 38000 = Finite y \<longrightarrow>
               sample (Sv_select_diff nb) d t = rnd (x - y)) \<and>
            (sample (Sv_120 nb) d t = PosInf \<and> sample (Sv_38 nb) d t \<noteq> NaN \<and>
             sample (Sv_38 nb) d t \<noteq> PosInf \<longrightarrow> sample (Sv_select_diff nb) d t = PosInf) \<and>
            (sample (Sv_120 nb) d t = NegInf \<and> sample (Sv_38 nb) d t \<noteq> NaN \<and>
             sample (Sv_38 nb) d t \<noteq> NegInf \<longrightarrow> sample (Sv_select_diff nb) d t = NegInf) \<and>
            (\<forall>x. sample (Sv_120 nb) d t = Finite x \<and> sample (Sv_38 nb) d t = PosInf \<longrightarrow>
               sample (Sv_select_diff nb) d t = NegInf) \<and>
            (\<forall>x. sample (Sv_120 nb) d t = Finite x \<and> sample (Sv_38 nb) d t = NegInf \<longrightarrow>
               sample (Sv_select_diff nb) d t = PosInf) \<and>
            (sample (Sv_120 nb) d t = sample (Sv_38 nb) d t \<and>
             sample (Sv_120 nb) d t \<in> {PosInf, NegInf} \<longrightarrow>
               sample (Sv_select_diff nb) d t = NaN)"
    if d: "d \<in> set (depth (Sv_120 nb)) \<inter> set (depth (Sv_38 nb))"
      and t: "t \<in> set (time (Sv_120 nb)) \<inter> set (time (Sv_38 nb))" for d t
  proof -
    have m: "d \<in> set (depth (Sv_select_diff nb))" "t \<in> set (time (Sv_select_diff nb))"
      using d t by (auto simp: diff da_sub_def)
    have e120: "sample (Sv_120 nb) d t = ds_Sv cruise d t 120000"
      using d t by (intro v120) auto
    have e38: "sample (Sv_38 nb) d t = ds_Sv cruise d t 38000"
      using t by (intro v38) auto
    show ?thesis
      using m e120 [symmetric] e38 [symmetric]
      by (cases "sample (Sv_120 nb) d t"; cases "sample (Sv_38 nb) d t") (simp_all add: s)
  qed
  have c2: "set (depth (Sv_select_diff nb)) = set (depth (Sv_120 nb)) \<inter> set (depth (Sv_38 nb))"
    by (auto simp: diff da_sub_def)
  have c3: "set (time (Sv_select_diff nb)) = set (time (Sv_120 nb)) \<inter> set (time (Sv_38 nb))"
    by (auto simp: diff da_sub_def)
  have c4: "depth (Sv_select_diff_dropna nb) =
           filter (\<lambda>d. \<not> (\<exists>t \<in> set (time (Sv_select_diff nb)). sample (Sv_select_diff nb) d t = NaN))
             (depth (Sv_select_diff nb))"
    by (simp add: drop dropna_depth_def)
  have c5: "time (Sv_select_diff_dropna nb) = time (Sv_select_diff nb)"
    by (simp add: drop dropna_depth_def)
  have c6: "sample (Sv_select_diff_dropna nb) = sample (Sv_select_diff nb)"
    by (simp add: drop dropna_depth_def)
  show ?thesis
    using c1 c2 c3 c4 c5 c6 by blast
qed

lemma layered_cruise_runs: "\<exists>nb. chapter2_arrays rnd layered_cruise = Inr nb"
  by (rule chapter2_arrays_total) (simp add: layered_cruise_def)

theorem frequency_differencing_witness:
  "(\<exists>nb. chapter2_arrays Finite small_cruise = Inr nb \<and>
     depth (Sv_select_diff nb) = [Finite 100, Finite 250] \<and>
     time (Sv_select_diff nb) = [1437334200 * 10 ^ 9] \<and>
     sample (Sv_select_diff nb) (Finite 100) (1437334200 * 10 ^ 9) = Finite 10 \<and>
     sample (Sv_select_diff nb) (Finite 250) (1437334200 * 10 ^ 9) = NaN \<and>
     depth (Sv_select_diff_dropna nb) = [Finite 100] \<and>
     set (depth (Sv_select_diff nb)) = set (depth (Sv_120 nb)) \<inter> set (depth (Sv_38 nb)) \<and>
     sample (Sv_select_diff_dropna nb) = sample (Sv_select_diff nb)) \<and>
   (\<exists>nb. chapter2_arrays whole_dB layered_cruise = Inr nb \<and>
     depth (Sv_120 nb) = [Finite 100, Finite 250, Finite 400] \<and>
     depth (Sv_38 nb) = [Finite 0, Finite 100, Finite 250, Finite 400, Finite 500] \<and>
     time (Sv_120 nb) = [1437333000 * 10 ^ 9, 1437334200 * 10 ^ 9] \<and>
     time (Sv_38 nb) = [1437333000 * 10 ^ 9, 1437334200 * 10 ^ 9] \<and>
     sample (Sv_120 nb) (Finite 250) (1437333000 * 10 ^ 9) = Finite (- 125 / 2) \<and>
     sample (Sv_38 nb) (Finite 250) (1437333000 * 10 ^ 9) = Finite (- 75) \<and>
     sample (Sv_select_diff nb) (Finite 100) (1437333000 * 10 ^ 9) = Finite 11 \<and>
     sample (Sv_select_diff nb) (Finite 250) (1437333000 * 10 ^ 9) = Finite 12 \<and>
     sample (Sv_select_diff nb) (Finite 400) (1437333000 * 10 ^ 9) = Finite 14 \<and>
     sample (Sv_select_diff nb) (Finite 100) (1437334200 * 10 ^ 9) = Finite 11 \<and>
     sample (Sv_select_diff nb) (Finite 250) (1437334200 * 10 ^ 9) = NaN \<and>
     sample (Sv_select_diff nb) (Finite 400) (1437334200 * 10 ^ 9) = Finite 14 \<and>
     set (depth (Sv_select_diff nb)) = {Finite 100, Finite 250, Finite 400} \<and>
     set (time (Sv_select_diff nb)) = {1437333000 * 10 ^ 9, 1437334200 * 10 ^ 9} \<and>
     depth (Sv_select_diff_dropna nb) = [Finite 100, Finite 400])"
proof -
  from small_cruise_runs obtain nb where run: "chapter2_arrays Finite small_cruise = Inr nb"
    by blast
  have vals: "depth (Sv_select_diff nb) = [Finite 100, Finite 250] \<and>
     time (Sv_select_diff nb) = [1437334200 * 10 ^ 9] \<and>
     sample (Sv_select_diff nb) (Finite 100) (1437334200 * 10 ^ 9) = Finite 10 \<and>
     sample (Sv_select_diff nb) (Finite 250) (1437334200 * 10 ^ 9) = NaN \<and>
     depth (Sv_select_diff_dropna nb) = [Finite 100]"
    using run
    by (auto simp: chapter2_arrays_def sel_frequency_def small_cruise_def Let_def
        select_times_def select_depths_def start_time_def end_time_def start_depth_def
        end_depth_def da_sub_def dropna_depth_def)
  have "set (depth (Sv_select_diff nb)) = set (depth (Sv_120 nb)) \<inter> set (depth (Sv_38 nb)) \<and>
     sample (Sv_select_diff_dropna nb) = sample (Sv_select_diff nb)"
    using frequency_differencing [OF run] by simp
  then have small: "\<exists>nb. chapter2_arrays Finite small_cruise = Inr nb \<and>
     depth (Sv_select_diff nb) = [Finite 100, Finite 250] \<and>
     time (Sv_select_diff nb) = [1437334200 * 10 ^ 9] \<and>
     sample (Sv_select_diff nb) (Finite 100) (1437334200 * 10 ^ 9) = Finite 10 \<and>
     sample (Sv_select_diff nb) (Finite 250) (1437334200 * 10 ^ 9) = NaN \<and>
     depth (Sv_select_diff_dropna nb) = [Finite 100] \<and>
     set (depth (Sv_select_diff nb)) = set (depth (Sv_120 nb)) \<inter> set (depth (Sv_38 nb)) \<and>
     sample (Sv_select_diff_dropna nb) = sample (Sv_select_diff nb)"
    using run vals by (intro exI [of _ nb]) simp
  from layered_cruise_runs obtain lb where
    lrun: "chapter2_arrays whole_dB layered_cruise = Inr lb"
    by blast
  have lab: "depth (Sv_120 lb) = [Finite 100, Finite 250, Finite 400]"
    "depth (Sv_38 lb) = [Finite 0, Finite 100, Finite 250, Finite 400, Finite 500]"
    "time (Sv_120 lb) = [1437333000 * 10 ^ 9, 1437334200 * 10 ^ 9]"
    "time (Sv_38 lb) = [1437333000 * 10 ^ 9, 1437334200 * 10 ^ 9]"
    using lrun
    by (auto simp: chapter2_arrays_def sel_frequency_def layered_cruise_def Let_def
        select_times_def select_depths_def start_time_def end_time_def start_depth_def
        end_depth_def)
  note fd = frequency_differencing [OF lrun]
  note point = fd [THEN conjunct1, rule_format]
  have sv: "ds_Sv layered_cruise (Finite x) t 120000 = Finite (- 60 - x / 100)"
    "ds_Sv layered_cruise (Finite x) t 38000 =
       (if x = 250 \<and> t = 1437334200 * 10 ^ 9 then NaN else Finite (- 70 - x / 50))" for x t
    by (simp_all add: layered_cruise_def)
  have p1: "sample (Sv_select_diff lb) (Finite 100) (1437333000 * 10 ^ 9) = Finite 11"
    using point [of "Finite 100" "1437333000 * 10 ^ 9"]
    by (simp add: lab sv whole_dB_def)
  have p2: "sample (Sv_select_diff lb) (Finite 250) (1437333000 * 10 ^ 9) = Finite 12 \<and>
      sample (Sv_120 lb) (Finite 250) (1437333000 * 10 ^ 9) = Finite (- 125 / 2) \<and>
      sample (Sv_38 lb) (Finite 250) (1437333000 * 10 ^ 9) = Finite (- 75)"
    using point [of "Finite 250" "1437333000 * 10 ^ 9"]
    by (simp add: lab sv whole_dB_def)
  have p3: "sample (Sv_select_diff lb) (Finite 400) (1437333000 * 10 ^ 9) = Finite 14"
    using point [of "Finite 400" "1437333000 * 10 ^ 9"]
    by (simp add: lab sv whole_dB_def)
  have p4: "sample (Sv_select_diff lb) (Finite 100) (1437334200 * 10 ^ 9) = Finite 11"
    using point [of "Finite 100" "1437334200 * 10 ^ 9"]
    by (simp add: lab sv whole_dB_def)
  have p5: "sample (Sv_select_diff lb) (Finite 250) (1437334200 * 10 ^ 9) = NaN"
    using point [of "Finite 250" "1437334200 * 10 ^ 9"]
    by (simp add: lab sv whole_dB_def)
  have p6: "sample (Sv_select_diff lb) (Finite 400) (1437334200 * 10 ^ 9) = Finite 14"
    using point [of "Finite 400" "1437334200 * 10 ^ 9"]
    by (simp add: lab sv whole_dB_def)
  have sets: "set (depth (Sv_select_diff lb)) = {Finite 100, Finite 250, Finite 400} \<and>
      set (time (Sv_select_diff lb)) = {1437333000 * 10 ^ 9, 1437334200 * 10 ^ 9}"
    using fd [THEN conjunct2, THEN conjunct1] fd [THEN conjunct2, THEN conjunct2, THEN conjunct1]
    by (auto simp: lab)
  have dl: "depth (Sv_select_diff lb) = [Finite 100, Finite 250, Finite 400]"
    using lrun
    by (auto simp: chapter2_arrays_def sel_frequency_def layered_cruise_def Let_def
        select_times_def select_depths_def start_time_def end_time_def start_depth_def
        end_depth_def da_sub_def)
  have kept: "depth (Sv_select_diff_dropna lb) = [Finite 100, Finite 400]"
    using fd [THEN conjunct2, THEN conjunct2, THEN conjunct2, THEN conjunct1]
      p1 p2 p3 p4 p5 p6
    by (simp add: dl sets)
  have layered: "\<exists>nb. chapter2_arrays whole_dB layered_cruise = Inr nb \<and>
     depth (Sv_120 nb) = [Finite 100, Finite 250, Finite 400] \<and>
     depth (Sv_38 nb) = [Finite 0, Finite 100, Finite 250, Finite 400, Finite 500] \<and>
     time (Sv_120 nb) = [1437333000 * 10 ^ 9, 1437334200 * 10 ^ 9] \<and>
     time (Sv_38 nb) = [1437333000 * 10 ^ 9, 1437334200 * 10 ^ 9] \<and>
     sample (Sv_120 nb) (Finite 250) (1437333000 * 10 ^ 9) = Finite (- 125 / 2) \<and>
     sample (Sv_38 nb) (Finite 250) (1437333000 * 10 ^ 9) = Finite (- 75) \<and>
     sample (Sv_select_diff nb) (Finite 100) (1437333000 * 10 ^ 9) = Finite 11 \<and>
     sample (Sv_select_diff nb) (Finite 250) (1437333000 * 10 ^ 9) = Finite 12 \<and>
     sample (Sv_select_diff nb) (Finite 400) (1437333000 * 10 ^ 9) = Finite 14 \<and>
     sample (Sv_select_diff nb) (Finite 100) (1437334200 * 10 ^ 9) = Finite 11 \<and>
     sample (Sv_select_diff nb) (Finite 250) (1437334200 * 10 ^ 9) = NaN \<and>
     sample (Sv_select_diff nb) (Finite 400) (1437334200 * 10 ^ 9) = Finite 14 \<and>
     set (depth (Sv_select_diff nb)) = {Finite 100, Finite 250, Finite 400} \<and>
     set (time (Sv_select_diff nb)) = {1437333000 * 10 ^ 9, 1437334200 * 10 ^ 9} \<and>
     depth (Sv_select_diff_dropna nb) = [Finite 100, Finite 400]"
    using lrun lab p1 p2 p3 p4 p5 p6 sets kept by (intro exI [of _ lb]) simp
  from small layered show ?thesis by (rule conjI)
qed

section \<open>Properties of the line simplification\<close>

lemma fold_choice_in:
  "fold (\<lambda>i best. if P i best then i else best) idx b \<in> insert b (set idx)"
  by (induction idx arbitrary: b) auto

lemma farthest_bounds:
  assumes "\<not> length ps < 3"
  shows "1 \<le> farthest distance ps \<and> farthest distance ps < length ps - 1"
proof -
  have "farthest distance ps \<in> insert 1 (set [1 ..< length ps - 1])"
    unfolding farthest_def by (rule fold_choice_in)
  with assms show ?thesis by auto
qed

lemma rdp_ends:
  "ps \<noteq> [] \<Longrightarrow>
   rdp distance tolerance topology_ok ps \<noteq> [] \<and> hd (rdp distance tolerance topology_ok ps) = hd ps \<and>
   last (rdp distance tolerance topology_ok ps) = last ps"
proof (induction distance tolerance topology_ok ps rule: rdp.induct)
  case (1 distance tolerance topology_ok ps)
  show ?case
  proof (cases "length ps < 3")
    case True
    with "1.prems" show ?thesis by simp
  next
    case long: False
    define i where "i = farthest distance ps"
    have i: "1 \<le> i" "i < length ps - 1"
      using farthest_bounds [OF long, of distance] by (simp_all add: i_def)
    show ?thesis
    proof (cases "tolerance < distance (hd ps) (last ps) (ps ! i) \<or> \<not> topology_ok ps")
      case False
      with long show ?thesis
        by (subst (1 2 3) rdp.simps) (simp add: i_def Let_def)
    next
      case split: True
      let ?l = "rdp distance tolerance topology_ok (take (Suc i) ps)"
      let ?r = "rdp distance tolerance topology_ok (drop i ps)"
      have "take (Suc i) ps \<noteq> []" "drop i ps \<noteq> []"
        using i by auto
      with "1.IH" [OF long i_def split] have
        l: "?l \<noteq> []" "hd ?l = hd (take (Suc i) ps)" "last ?l = last (take (Suc i) ps)" and
        r: "?r \<noteq> []" "hd ?r = hd (drop i ps)" "last ?r = last (drop i ps)"
        by simp_all
      have eq: "rdp distance tolerance topology_ok ps = butlast ?l @ ?r"
        using long split by (subst rdp.simps) (simp add: i_def Let_def)
      have hd_r: "hd (drop i ps) = ps ! i"
        using i by (simp add: hd_drop_conv_nth)
      have last_l: "last (take (Suc i) ps) = ps ! i"
        using i by (simp add: take_Suc_conv_app_nth)
      have hd_l: "hd (take (Suc i) ps) = hd ps"
        using "1.prems" by (cases ps) simp_all
      have last_r: "last (drop i ps) = last ps"
        using i by simp
      have "hd (butlast ?l @ ?r) = hd ps"
      proof (cases "butlast ?l = []")
        case True
        then have "?l = [last ?l]"
          using l(1) by (metis append_butlast_last_id append_Nil)
        then have "hd ?l = last ?l"
          by (metis list.sel(1))
        with True l r hd_r last_l hd_l show ?thesis by simp
      next
        case False
        then have "hd (butlast ?l @ ?r) = hd (butlast ?l)" by simp
        also have "\<dots> = hd ?l"
          using False l(1) by (metis append_butlast_last_id hd_append2)
        finally show ?thesis using l hd_l by simp
      qed
      with eq r last_r show ?thesis by simp
    qed
  qed
qed

lemma subseq_butlast_snoc:
  "subseq xs (ys @ [y]) \<Longrightarrow> xs \<noteq> [] \<Longrightarrow> last xs = y \<Longrightarrow> subseq (butlast xs) ys"
proof -
  assume a: "subseq xs (ys @ [y])" "xs \<noteq> []" "last xs = y"
  then have xs: "xs = butlast xs @ [y]"
    by (metis append_butlast_last_id)
  with a(1) have "subseq (butlast xs @ [y]) (ys @ [y])" by simp
  then show ?thesis by (simp only: subseq_append)
qed

lemma rdp_subseq: "subseq (rdp distance tolerance topology_ok ps) ps"
proof (induction distance tolerance topology_ok ps rule: rdp.induct)
  case (1 distance tolerance topology_ok ps)
  show ?case
  proof (cases "length ps < 3")
    case True
    then show ?thesis by simp
  next
    case long: False
    define i where "i = farthest distance ps"
    have i: "1 \<le> i" "i < length ps - 1"
      using farthest_bounds [OF long, of distance] by (simp_all add: i_def)
    show ?thesis
    proof (cases "tolerance < distance (hd ps) (last ps) (ps ! i) \<or> \<not> topology_ok ps")
      case False
      obtain a b c where ps: "ps = a # b @ [c]"
        using long by (metis append_butlast_last_id length_0_conv list.exhaust list.size(3) not_less_zero butlast.simps(2) list.distinct(1) One_nat_def length_Cons less_Suc_eq numeral_3_eq_3)
      have "subseq [a, c] (a # b @ [c])" by (simp add: subseq_singleton_left)
      with False long ps show ?thesis
        by (subst rdp.simps) (simp add: i_def Let_def)
    next
      case split: True
      let ?l = "rdp distance tolerance topology_ok (take (Suc i) ps)"
      let ?r = "rdp distance tolerance topology_ok (drop i ps)"
      have eq: "rdp distance tolerance topology_ok ps = butlast ?l @ ?r"
        using long split by (subst rdp.simps) (simp add: i_def Let_def)
      from "1.IH" [OF long i_def split] have
        l: "subseq ?l (take (Suc i) ps)" and r: "subseq ?r (drop i ps)"
        by simp_all
      have tk: "take (Suc i) ps = take i ps @ [ps ! i]"
        using i by (simp add: take_Suc_conv_app_nth)
      have ne: "take (Suc i) ps \<noteq> []" using i by auto
      have "last ?l = ps ! i" "?l \<noteq> []"
        using rdp_ends [OF ne, of distance tolerance topology_ok] tk by simp_all
      with l tk have "subseq (butlast ?l) (take i ps)"
        using subseq_butlast_snoc [of ?l "take i ps" "ps ! i"] by simp
      from this r have "subseq (butlast ?l @ ?r) (take i ps @ drop i ps)"
        by (rule list_emb_append_mono)
      with eq show ?thesis by simp
    qed
  qed
qed


text \<open>
  Claim C9. Simplifying the track never adds a point: the simplified linestring has at
  most as many coordinates as the original, its coordinates are a subsequence of the
  original's in the original order, and the first and the last coordinate of a
  non-empty linestring are kept.
\<close>

theorem simplify_never_adds_points:
  "length (lineSimplified distance topology_ok coords) \<le> length coords \<and>
   subseq (lineSimplified distance topology_ok coords) coords \<and>
   (coords \<noteq> [] \<longrightarrow>
      lineSimplified distance topology_ok coords \<noteq> [] \<and>
      hd (lineSimplified distance topology_ok coords) = hd coords \<and>
      last (lineSimplified distance topology_ok coords) = last coords)"
  unfolding lineSimplified_def
  using rdp_subseq [of distance "1 / 100" topology_ok coords]
    rdp_ends [of coords distance "1 / 100" topology_ok]
    list_emb_length [of "(=)" "rdp distance (1 / 100) topology_ok coords" coords]
  by blast

lemma simplified_track:
  "lineSimplified triangle_area2 (\<lambda>part. True) (linestring [0, 0, 0, 1, 2] [0, 1, 2, 2, 2]) =
     [(0, 0), (0, 2), (2, 2)]"
  by code_simp

theorem simplify_never_adds_points_witness:
  "linestring [0, 0, 0, 1, 2] [0, 1, 2, 2, 2] = [(0, 0), (0, 1), (0, 2), (1, 2), (2, 2)] \<and>
   lineSimplified triangle_area2 (\<lambda>part. True) (linestring [0, 0, 0, 1, 2] [0, 1, 2, 2, 2]) =
     [(0, 0), (0, 2), (2, 2)] \<and>
   length (lineSimplified triangle_area2 (\<lambda>part. True) (linestring [0, 0, 0, 1, 2] [0, 1, 2, 2, 2])) \<le> 5 \<and>
   subseq (lineSimplified triangle_area2 (\<lambda>part. True) (linestring [0, 0, 0, 1, 2] [0, 1, 2, 2, 2]))
     [(0, 0), (0, 1), (0, 2), (1, 2), (2, 2)] \<and>
   hd (lineSimplified triangle_area2 (\<lambda>part. True) (linestring [0, 0, 0, 1, 2] [0, 1, 2, 2, 2])) = (0, 0) \<and>
   last (lineSimplified triangle_area2 (\<lambda>part. True) (linestring [0, 0, 0, 1, 2] [0, 1, 2, 2, 2])) = (2, 2)"
proof -
  have ls: "linestring [0, 0, 0, 1, 2] [0, 1, 2, 2, 2] = [(0, 0), (0, 1), (0, 2), (1, 2), (2, 2)]"
    by (simp add: linestring_def)
  have "length (lineSimplified triangle_area2 (\<lambda>part. True) (linestring [0, 0, 0, 1, 2] [0, 1, 2, 2, 2])) \<le> 5 \<and>
   subseq (lineSimplified triangle_area2 (\<lambda>part. True) (linestring [0, 0, 0, 1, 2] [0, 1, 2, 2, 2]))
     [(0, 0), (0, 1), (0, 2), (1, 2), (2, 2)] \<and>
   hd (lineSimplified triangle_area2 (\<lambda>part. True) (linestring [0, 0, 0, 1, 2] [0, 1, 2, 2, 2])) = (0, 0) \<and>
   last (lineSimplified triangle_area2 (\<lambda>part. True) (linestring [0, 0, 0, 1, 2] [0, 1, 2, 2, 2])) = (2, 2)"
    using simplify_never_adds_points
      [of triangle_area2 "\<lambda>part. True" "linestring [0, 0, 0, 1, 2] [0, 1, 2, 2, 2]"]
    unfolding ls by simp
  with ls simplified_track show ?thesis by blast
qed

section \<open>Properties of the runs\<close>

lemma install_packages_events:
  "ev \<in> set (fst (install_packages pin imp pip pkgs env)) \<Longrightarrow>
   (\<exists>p. ev = Imported p) \<or> (\<exists>p e. ev = ImportRaised p e) \<or> (\<exists>req. ev = PipInstall req)"
proof (induction pkgs arbitrary: env)
  case Nil
  then show ?case by simp
next
  case (Cons p ps)
  then show ?case
    by (auto simp add: install_packages_Cons simp del: install_packages.simps
        split: option.splits if_splits sum.splits)
qed

lemma fetches_install_packages:
  "fetches (fst (install_packages pin imp pip pkgs env)) = []"
proof -
  have "\<not> is_fetch ev" if "ev \<in> set (fst (install_packages pin imp pip pkgs env))" for ev
    using install_packages_events [OF that] by auto
  then show ?thesis
    by (auto simp: fetches_def filter_empty_conv)
qed

lemma download_files_events:
  "snd (download_files s3_get names fs) = Inr fs' \<Longrightarrow>
   fst (download_files s3_get names fs) =
     map (\<lambda>n. DownloadFile chapter1_bucket_name (raw_key n) (basename n)) names"
proof (induction names arbitrary: fs)
  case Nil
  then show ?case by simp
next
  case (Cons n ns)
  then show ?case
    by (auto simp add: download_files_Cons simp del: download_files.simps split: sum.splits)
qed

lemma download_files_events_set:
  "ev \<in> set (fst (download_files s3_get names fs)) \<Longrightarrow>
   \<exists>n \<in> set names. ev = DownloadFile chapter1_bucket_name (raw_key n) (basename n)"
proof (induction names arbitrary: fs)
  case Nil
  then show ?case by simp
next
  case (Cons n ns)
  then show ?case
    by (auto simp add: download_files_Cons simp del: download_files.simps split: sum.splits)
qed

lemma open_raw_files_Cons:
  "open_raw_files fs (n # rest) =
     (case fs n of
        None \<Rightarrow> ([], Inl FileNotFoundError)
      | Some body \<Rightarrow>
          (OpenRaw n # fst (open_raw_files fs rest),
           map_sum id ((#) body) (snd (open_raw_files fs rest))))"
  by (simp split: option.splits sum.splits prod.splits)

lemma open_raw_files_events_set:
  "ev \<in> set (fst (open_raw_files fs names)) \<Longrightarrow> \<exists>n \<in> set names. ev = OpenRaw n"
proof (induction names)
  case Nil
  then show ?case by simp
next
  case (Cons n ns)
  then show ?case
    by (auto simp add: open_raw_files_Cons simp del: open_raw_files.simps split: option.splits)
qed

lemma open_raw_files_events:
  "snd (open_raw_files fs names) = Inr echodata \<Longrightarrow>
   fst (open_raw_files fs names) = map OpenRaw names"
proof (induction names arbitrary: echodata)
  case Nil
  then show ?case by simp
next
  case (Cons n ns)
  then show ?case
    by (auto simp add: open_raw_files_Cons simp del: open_raw_files.simps
        split: option.splits sum.splits) (metis (no_types) Inl_Inr_False map_sum.simps(1) old.sum.exhaust)
qed


lemma fetches_simps:
  "fetches [] = []"
  "fetches (ev # evs) = (if is_fetch ev then ev # fetches evs else fetches evs)"
  by (simp_all add: fetches_def)

lemma fetches_append: "fetches (xs @ ys) = fetches xs @ fetches ys"
  by (simp add: fetches_def)

lemma fetches_open_raw_files: "fetches (fst (open_raw_files fs names)) = []"
proof -
  have "\<not> is_fetch ev" if "ev \<in> set (fst (open_raw_files fs names))" for ev
    using open_raw_files_events_set [OF that] by auto
  then show ?thesis
    by (auto simp: fetches_def filter_empty_conv)
qed

lemma fetches_download_files:
  "snd (download_files s3_get names fs) = Inr fs' \<Longrightarrow>
   fetches (fst (download_files s3_get names fs)) =
     map (\<lambda>n. DownloadFile chapter1_bucket_name (raw_key n) (basename n)) names"
  by (simp add: download_files_events fetches_def filter_map comp_def)

lemma chapter1_fetches:
  assumes "snd (chapter1 w m) = Inr m'"
  shows "fetches (fst (chapter1 w m)) =
     map (\<lambda>n. DownloadFile chapter1_bucket_name (raw_key n) (basename n)) file_names"
  using assms
  by (auto simp: chapter1_def fst_then_run snd_then_run fetches_append chapter1_install_def
      fetches_install_packages fetches_open_raw_files fetches_download_files fetches_simps
      split: sum.splits)

lemma open_zarr_fetches:
  "snd (open_zarr w p) = Inr c \<Longrightarrow> fst (open_zarr w p) = [OpenZarr p]"
  by (auto simp: open_zarr_def split: sum.splits)

lemma requests_get_fetches:
  "snd (requests_get w url) = Inr c \<Longrightarrow> fst (requests_get w url) = [HttpGet url]"
  by (auto simp: requests_get_def split: sum.splits)

lemma chapter2_fetches:
  assumes "snd (chapter2 w m) = Inr r"
  shows "fetches (fst (chapter2 w m)) = [OpenZarr s3_zarr_store_path]"
  using assms
  by (auto simp: chapter2_def fst_then_run snd_then_run fetches_append chapter2_install_def
      fetches_install_packages open_zarr_fetches fetches_simps split: sum.splits)

lemma chapter3_fetches:
  assumes "snd (chapter3 w m) = Inr r"
  shows "fetches (fst (chapter3 w m)) = [OpenZarr s3_zarr_store_path]"
  using assms
  by (auto simp: chapter3_def fst_then_run snd_then_run fetches_append chapter3_install_def
      fetches_install_packages open_zarr_fetches fetches_simps split: sum.splits)

lemma tcprimed_fetches:
  assumes "snd (tcprimed_chapter1a w m) = Inr r"
  shows "fetches (fst (tcprimed_chapter1a w m)) = [HttpGet (NODD_URL @ FILE_NAME)]"
  using assms
  by (auto simp: tcprimed_chapter1a_def fst_then_run snd_then_run fetches_append
      tcprimed_install_def fetches_install_packages requests_get_fetches fetches_simps
      split: sum.splits)

text \<open>
  Claim C2, amended. A run of chapter 1 that completes has downloaded six remote files,
  one \<open>download_file\<close> call per entry of \<open>file_names\<close>, each from the key
  \<open>data/raw/Bell_M._Shimada/SH1507/EK60/\<close> followed by the file's name; a completed run
  of chapter 2 or of chapter 3 has opened one remote Zarr store, and a completed run of
  TC PRIMED chapter 1a has fetched one NetCDF file with one GET.
\<close>

theorem fetches_per_notebook:
  "(snd (run_notebook nb w m) = Inr m' \<longrightarrow>
      fetches (fst (run_notebook nb w m)) =
        (case nb of
           Echofish_Chapter_1 \<Rightarrow>
             map (\<lambda>n. DownloadFile chapter1_bucket_name (raw_key n) (basename n)) file_names
         | Echofish_Chapter_2 \<Rightarrow> [OpenZarr s3_zarr_store_path]
         | Echofish_Chapter_3 \<Rightarrow> [OpenZarr s3_zarr_store_path]
         | TCPRIMED_Chapter_1a \<Rightarrow> [HttpGet (NODD_URL @ FILE_NAME)]) \<and>
      length (fetches (fst (run_notebook nb w m))) =
        (if nb = Echofish_Chapter_1 then length file_names else 1)) \<and>
   length file_names = 6"
proof -
  have six: "length file_names = 6"
    by (simp add: file_names_def)
  have "fetches (fst (run_notebook nb w m)) =
        (case nb of
           Echofish_Chapter_1 \<Rightarrow>
             map (\<lambda>n. DownloadFile chapter1_bucket_name (raw_key n) (basename n)) file_names
         | Echofish_Chapter_2 \<Rightarrow> [OpenZarr s3_zarr_store_path]
         | Echofish_Chapter_3 \<Rightarrow> [OpenZarr s3_zarr_store_path]
         | TCPRIMED_Chapter_1a \<Rightarrow> [HttpGet (NODD_URL @ FILE_NAME)])"
    if run: "snd (run_notebook nb w m) = Inr m'"
  proof (cases nb)
    case Echofish_Chapter_1
    with run show ?thesis by (simp add: chapter1_fetches)
  next
    case Echofish_Chapter_2
    with run obtain r where "snd (chapter2 w m) = Inr r"
      by (cases "snd (chapter2 w m)") (auto simp: keep_machine_def)
    with Echofish_Chapter_2 show ?thesis by (simp add: keep_machine_def chapter2_fetches)
  next
    case Echofish_Chapter_3
    with run obtain r where "snd (chapter3 w m) = Inr r"
      by (cases "snd (chapter3 w m)") (auto simp: keep_machine_def)
    with Echofish_Chapter_3 show ?thesis by (simp add: keep_machine_def chapter3_fetches)
  next
    case TCPRIMED_Chapter_1a
    with run obtain r where "snd (tcprimed_chapter1a w m) = Inr r"
      by (cases "snd (tcprimed_chapter1a w m)") (auto simp: keep_machine_def)
    with TCPRIMED_Chapter_1a show ?thesis by (simp add: keep_machine_def tcprimed_fetches)
  qed
  then show ?thesis
    using six by (cases nb) auto
qed


lemma chapter1_listed_run:
  "fst (chapter1 listed_world fresh_machine) =
     [ImportRaised ''boto3'' ModuleNotFoundError, PipInstall ''boto3'',
      ImportRaised ''botocore'' ModuleNotFoundError, PipInstall ''botocore'',
      ImportRaised ''echopype'' ModuleNotFoundError, PipInstall ''echopype==0.8.4'',
      DownloadFile ''noaa-wcsd-pds'' ''data/raw/Bell_M._Shimada/SH1507/EK60/SaKe2015-D20150719-T193412.raw''
        ''SaKe2015-D20150719-T193412.raw'',
      DownloadFile ''noaa-wcsd-pds'' ''data/raw/Bell_M._Shimada/SH1507/EK60/SaKe2015-D20150719-T193443.raw''
        ''SaKe2015-D20150719-T193443.raw'',
      DownloadFile ''noaa-wcsd-pds'' ''data/raw/Bell_M._Shimada/SH1507/EK60/SaKe2015-D20150719-T194042.raw''
        ''SaKe2015-D20150719-T194042.raw'',
      DownloadFile ''noaa-wcsd-pds'' ''data/raw/Bell_M._Shimada/SH1507/EK60/SaKe2015-D20150719-T194642.raw''
        ''SaKe2015-D20150719-T194642.raw'',
      DownloadFile ''noaa-wcsd-pds'' ''data/raw/Bell_M._Shimada/SH1507/EK60/SaKe2015-D20150719-T195242.raw''
        ''SaKe2015-D20150719-T195242.raw'',
      DownloadFile ''noaa-wcsd-pds'' ''data/raw/Bell_M._Shimada/SH1507/EK60/SaKe2015-D20150719-T195842.raw''
        ''SaKe2015-D20150719-T195842.raw'',
      ListDir,
      OpenRaw ''SaKe2015-D20150719-T193412.raw'', OpenRaw ''SaKe2015-D20150719-T193443.raw'', OpenRaw ''SaKe2015-D20150719-T194042.raw'', OpenRaw ''SaKe2015-D20150719-T194642.raw'', OpenRaw ''SaKe2015-D20150719-T195242.raw'', OpenRaw ''SaKe2015-D20150719-T195842.raw'',
      Remove ''/root/.echopype/temp_output/combined_echodata.zarr''] \<and>
   (\<exists>m'. snd (chapter1 listed_world fresh_machine) = Inr m' \<and>
      python m' = [''echopype'', ''botocore'', ''boto3''])"
  by (simp add: chapter1_def then_run_def chapter1_install_def chapter1_PACKAGES_def
      chapter1_requirement_def listed_world_def fresh_machine_def listed_import_def
      listed_pip_def requirement_name_def file_names_def raw_key_def basename_def
      chapter1_bucket_name_def ship_name_def cruise_name_def sensor_name_def temp_output_def)

text \<open>
  Claim C2, as stated, fails on chapter 1: its data-acquisition cell downloads the six
  raw files of \<open>file_names\<close>, not one.
\<close>

theorem six_raw_files_counterexample:
  "fetches (fst (run_notebook Echofish_Chapter_1 listed_world fresh_machine)) =
     [DownloadFile ''noaa-wcsd-pds'' ''data/raw/Bell_M._Shimada/SH1507/EK60/SaKe2015-D20150719-T193412.raw''
        ''SaKe2015-D20150719-T193412.raw'',
      DownloadFile ''noaa-wcsd-pds'' ''data/raw/Bell_M._Shimada/SH1507/EK60/SaKe2015-D20150719-T193443.raw''
        ''SaKe2015-D20150719-T193443.raw'',
      DownloadFile ''noaa-wcsd-pds'' ''data/raw/Bell_M._Shimada/SH1507/EK60/SaKe2015-D20150719-T194042.raw''
        ''SaKe2015-D20150719-T194042.raw'',
      DownloadFile ''noaa-wcsd-pds'' ''data/raw/Bell_M._Shimada/SH1507/EK60/SaKe2015-D20150719-T194642.raw''
        ''SaKe2015-D20150719-T194642.raw'',
      DownloadFile ''noaa-wcsd-pds'' ''data/raw/Bell_M._Shimada/SH1507/EK60/SaKe2015-D20150719-T195242.raw''
        ''SaKe2015-D20150719-T195242.raw'',
      DownloadFile ''noaa-wcsd-pds'' ''data/raw/Bell_M._Shimada/SH1507/EK60/SaKe2015-D20150719-T195842.raw''
        ''SaKe2015-D20150719-T195842.raw''] \<and>
   length (fetches (fst (run_notebook Echofish_Chapter_1 listed_world fresh_machine))) = 6 \<and>
   \<not> (\<forall>nb. length (fetches (fst (run_notebook nb listed_world fresh_machine))) = 1)"
proof -
  have f: "fetches (fst (run_notebook Echofish_Chapter_1 listed_world fresh_machine)) =
     [DownloadFile ''noaa-wcsd-pds'' ''data/raw/Bell_M._Shimada/SH1507/EK60/SaKe2015-D20150719-T193412.raw''
        ''SaKe2015-D20150719-T193412.raw'',
      DownloadFile ''noaa-wcsd-pds'' ''data/raw/Bell_M._Shimada/SH1507/EK60/SaKe2015-D20150719-T193443.raw''
        ''SaKe2015-D20150719-T193443.raw'',
      DownloadFile ''noaa-wcsd-pds'' ''data/raw/Bell_M._Shimada/SH1507/EK60/SaKe2015-D20150719-T194042.raw''
        ''SaKe2015-D20150719-T194042.raw'',
      DownloadFile ''noaa-wcsd-pds'' ''data/raw/Bell_M._Shimada/SH1507/EK60/SaKe2015-D20150719-T194642.raw''
        ''SaKe2015-D20150719-T194642.raw'',
      DownloadFile ''noaa-wcsd-pds'' ''data/raw/Bell_M._Shimada/SH1507/EK60/SaKe2015-D20150719-T195242.raw''
        ''SaKe2015-D20150719-T195242.raw'',
      DownloadFile ''noaa-wcsd-pds'' ''data/raw/Bell_M._Shimada/SH1507/EK60/SaKe2015-D20150719-T195842.raw''
        ''SaKe2015-D20150719-T195842.raw'']"
    using chapter1_listed_run by (simp add: fetches_simps)
  then have six: "length (fetches (fst (run_notebook Echofish_Chapter_1 listed_world fresh_machine))) = 6"
    by simp
  have "\<not> (\<forall>nb. length (fetches (fst (run_notebook nb listed_world fresh_machine))) = 1)"
  proof
    assume "\<forall>nb. length (fetches (fst (run_notebook nb listed_world fresh_machine))) = 1"
    then have "length (fetches (fst (run_notebook Echofish_Chapter_1 listed_world fresh_machine))) = 1"
      by (rule spec)
    with six show False by simp
  qed
  with f six show ?thesis by blast
qed


lemma listed_install_succeeds:
  "\<exists>env'. snd (install_packages pin listed_import listed_pip pkgs env) = Inr env'"
proof (induction pkgs arbitrary: env)
  case Nil
  show ?case by simp
next
  case (Cons p ps)
  show ?case
    using Cons.IH
    by (auto simp add: install_packages_Cons listed_import_def listed_pip_def
        simp del: install_packages.simps)
qed

lemma chapter2_listed_completes:
  "\<exists>m'. snd (run_notebook Echofish_Chapter_2 listed_world fresh_machine) = Inr m'"
proof -
  obtain env' where env': "snd (chapter2_install listed_import listed_pip []) = Inr env'"
    unfolding chapter2_install_def using listed_install_succeeds by blast
  obtain nb where nb: "chapter2_arrays Finite small_cruise = Inr nb"
    using small_cruise_runs by blast
  show ?thesis
    using env' nb
    by (simp add: keep_machine_def chapter2_def snd_then_run listed_world_def fresh_machine_def
        open_zarr_def)
qed

lemma chapter3_listed_completes:
  "\<exists>m'. snd (run_notebook Echofish_Chapter_3 listed_world fresh_machine) = Inr m'"
proof -
  obtain env' where env': "snd (chapter3_install listed_import listed_pip []) = Inr env'"
    unfolding chapter3_install_def using listed_install_succeeds by blast
  show ?thesis
    using env'
    by (simp add: keep_machine_def chapter3_def snd_then_run listed_world_def fresh_machine_def
        open_zarr_def)
qed

lemma tcprimed_listed_completes:
  "\<exists>m'. snd (run_notebook TCPRIMED_Chapter_1a listed_world fresh_machine) = Inr m'"
proof -
  obtain env' where env': "snd (tcprimed_install listed_import listed_pip []) = Inr env'"
    unfolding tcprimed_install_def using listed_install_succeeds by blast
  show ?thesis
    using env'
    by (simp add: keep_machine_def tcprimed_chapter1a_def snd_then_run listed_world_def
        fresh_machine_def requests_get_def)
qed

theorem fetches_per_notebook_witness:
  "(\<exists>m'. snd (run_notebook Echofish_Chapter_1 listed_world fresh_machine) = Inr m') \<and>
   length (fetches (fst (run_notebook Echofish_Chapter_1 listed_world fresh_machine))) = 6 \<and>
   (\<exists>m'. snd (run_notebook Echofish_Chapter_2 listed_world fresh_machine) = Inr m') \<and>
   fetches (fst (run_notebook Echofish_Chapter_2 listed_world fresh_machine)) =
     [OpenZarr ''noaa-wcsd-zarr-pds/level_2/Bell_M._Shimada/SH1507/EK60/SH1507.zarr''] \<and>
   (\<exists>m'. snd (run_notebook Echofish_Chapter_3 listed_world fresh_machine) = Inr m') \<and>
   fetches (fst (run_notebook Echofish_Chapter_3 listed_world fresh_machine)) =
     [OpenZarr ''noaa-wcsd-zarr-pds/level_2/Bell_M._Shimada/SH1507/EK60/SH1507.zarr''] \<and>
   (\<exists>m'. snd (run_notebook TCPRIMED_Chapter_1a listed_world fresh_machine) = Inr m') \<and>
   fetches (fst (run_notebook TCPRIMED_Chapter_1a listed_world fresh_machine)) =
     [HttpGet ''https://noaa-nesdis-tcprimed-pds.s3.amazonaws.com/v01r01/final/2018/AL/06/TCPRIMED_v01r01-final_AL062018_GMI_GPM_025677_20180905051440.nc'']"
proof -
  obtain m1 where m1: "snd (run_notebook Echofish_Chapter_1 listed_world fresh_machine) = Inr m1"
    using chapter1_listed_run by auto
  obtain m2 where m2: "snd (run_notebook Echofish_Chapter_2 listed_world fresh_machine) = Inr m2"
    using chapter2_listed_completes by blast
  obtain m3 where m3: "snd (run_notebook Echofish_Chapter_3 listed_world fresh_machine) = Inr m3"
    using chapter3_listed_completes by blast
  obtain m4 where m4: "snd (run_notebook TCPRIMED_Chapter_1a listed_world fresh_machine) = Inr m4"
    using tcprimed_listed_completes by blast
  have f1: "length (fetches (fst (run_notebook Echofish_Chapter_1 listed_world fresh_machine))) = 6"
    using fetches_per_notebook [of Echofish_Chapter_1 listed_world fresh_machine m1] m1
    by simp
  have f2: "fetches (fst (run_notebook Echofish_Chapter_2 listed_world fresh_machine)) =
     [OpenZarr ''noaa-wcsd-zarr-pds/level_2/Bell_M._Shimada/SH1507/EK60/SH1507.zarr'']"
    using fetches_per_notebook [of Echofish_Chapter_2 listed_world fresh_machine m2] m2
    by (simp add: s3_zarr_store_path_def zarr_bucket_name_def ship_name_def cruise_name_def
        sensor_name_def)
  have f3: "fetches (fst (run_notebook Echofish_Chapter_3 listed_world fresh_machine)) =
     [OpenZarr ''noaa-wcsd-zarr-pds/level_2/Bell_M._Shimada/SH1507/EK60/SH1507.zarr'']"
    using fetches_per_notebook [of Echofish_Chapter_3 listed_world fresh_machine m3] m3
    by (simp add: s3_zarr_store_path_def zarr_bucket_name_def ship_name_def cruise_name_def
        sensor_name_def)
  have f4: "fetches (fst (run_notebook TCPRIMED_Chapter_1a listed_world fresh_machine)) =
     [HttpGet ''https://noaa-nesdis-tcprimed-pds.s3.amazonaws.com/v01r01/final/2018/AL/06/TCPRIMED_v01r01-final_AL062018_GMI_GPM_025677_20180905051440.nc'']"
    using fetches_per_notebook [of TCPRIMED_Chapter_1a listed_world fresh_machine m4] m4
    by (simp add: NODD_URL_def FILE_NAME_def)
  from m1 m2 m3 m4 f1 f2 f3 f4 show ?thesis by blast
qed

lemma install_packages_no_file:
  "ev \<in> set (fst (install_packages pin imp pip pkgs env)) \<Longrightarrow>
   \<not> reads ev (File path) \<and> \<not> writes ev (File path) \<and> (\<forall>f. ev \<noteq> OpenRaw f)"
  using install_packages_events [of ev pin imp pip pkgs env] by auto

lemma open_zarr_no_file:
  "ev \<in> set (fst (open_zarr w p)) \<Longrightarrow>
   \<not> reads ev (File path) \<and> \<not> writes ev (File path) \<and> (\<forall>f. ev \<noteq> OpenRaw f)"
  by (auto simp: open_zarr_def split: sum.splits)

lemma requests_get_no_file:
  "ev \<in> set (fst (requests_get w url)) \<Longrightarrow>
   \<not> reads ev (File path) \<and> \<not> writes ev (File path) \<and> (\<forall>f. ev \<noteq> OpenRaw f)"
  by (auto simp: requests_get_def split: sum.splits)

lemma then_run_all:
  "\<forall>ev \<in> set (fst r). P ev \<Longrightarrow> (\<And>x. snd r = Inr x \<Longrightarrow> \<forall>ev \<in> set (fst (f x)). P ev) \<Longrightarrow>
   \<forall>ev \<in> set (fst (then_run r f)). P ev"
  by (cases r) (auto simp: then_run_def split: sum.splits prod.splits)

lemma chapter2_no_file:
  "\<forall>ev \<in> set (fst (chapter2 w m)).
     \<not> reads ev (File path) \<and> \<not> writes ev (File path) \<and> (\<forall>f. ev \<noteq> OpenRaw f)"
  unfolding chapter2_def chapter2_install_def
  by (intro then_run_all ballI install_packages_no_file open_zarr_no_file) simp_all

lemma chapter3_no_file:
  "\<forall>ev \<in> set (fst (chapter3 w m)).
     \<not> reads ev (File path) \<and> \<not> writes ev (File path) \<and> (\<forall>f. ev \<noteq> OpenRaw f)"
  unfolding chapter3_def chapter3_install_def
  by (intro then_run_all ballI install_packages_no_file open_zarr_no_file) simp_all

lemma tcprimed_no_file:
  "\<forall>ev \<in> set (fst (tcprimed_chapter1a w m)).
     \<not> reads ev (File path) \<and> \<not> writes ev (File path) \<and> (\<forall>f. ev \<noteq> OpenRaw f)"
  unfolding tcprimed_chapter1a_def tcprimed_install_def
  by (intro then_run_all ballI install_packages_no_file requests_get_no_file) simp_all

lemma other_notebooks_no_file:
  assumes "nb \<noteq> Echofish_Chapter_1" "ev \<in> set (fst (run_notebook nb w m))"
  shows "\<not> reads ev (File path) \<and> \<not> writes ev (File path) \<and> (\<forall>f. ev \<noteq> OpenRaw f)"
proof (cases nb)
  case Echofish_Chapter_1
  with assms show ?thesis by simp
next
  case Echofish_Chapter_2
  with assms chapter2_no_file [of w m path] show ?thesis
    by (simp add: keep_machine_def)
next
  case Echofish_Chapter_3
  with assms chapter3_no_file [of w m path] show ?thesis
    by (simp add: keep_machine_def)
next
  case TCPRIMED_Chapter_1a
  with assms tcprimed_no_file [of w m path] show ?thesis
    by (simp add: keep_machine_def)
qed


lemma prefix_before:
  "xs @ ys = before @ e # after \<Longrightarrow> e \<notin> set xs \<Longrightarrow> \<exists>zs. before = xs @ zs"
proof (induction xs arbitrary: before)
  case Nil
  then show ?case by simp
next
  case (Cons x xs)
  from Cons.prems obtain b where b: "before = x # b"
    by (cases before) auto
  with Cons.prems have "xs @ ys = b @ e # after" "e \<notin> set xs"
    by auto
  from Cons.IH [OF this] b show ?case by auto
qed

lemma basename_file_names: "n \<in> set file_names \<Longrightarrow> basename n = n"
proof -
  have "list_all (\<lambda>n. basename n = n) file_names"
    by code_simp
  then show "n \<in> set file_names \<Longrightarrow> basename n = n"
    by (simp add: list_all_iff)
qed

lemma chapter1_events:
  "fst (chapter1 w m) =
     fst (chapter1_install (import_module w) (pip_install w) (python m)) @
     (case snd (chapter1_install (import_module w) (pip_install w) (python m)) of
        Inl e \<Rightarrow> []
      | Inr env \<Rightarrow>
          fst (download_files (s3_object w) file_names (files m)) @
          (case snd (download_files (s3_object w) file_names (files m)) of
             Inl e \<Rightarrow> []
           | Inr fs \<Rightarrow>
               ListDir # fst (open_raw_files fs file_names) @
               (case snd (open_raw_files fs file_names) of
                  Inl e \<Rightarrow> []
                | Inr echodata \<Rightarrow> [Remove temp_output])))"
  by (simp add: chapter1_def fst_then_run snd_then_run split: sum.splits)

lemma chapter1_open_raw_after_download:
  assumes evs: "fst (chapter1 w m) = before @ OpenRaw raw_file # after"
  shows "\<exists>bucket key. DownloadFile bucket key raw_file \<in> set before"
proof -
  define I where "I = chapter1_install (import_module w) (pip_install w) (python m)"
  define D where "D = download_files (s3_object w) file_names (files m)"
  note shape = chapter1_events [of w m, folded I_def D_def]
  have noI: "OpenRaw raw_file \<notin> set (fst I)"
  proof
    assume "OpenRaw raw_file \<in> set (fst I)"
    from install_packages_no_file [OF this [unfolded I_def chapter1_install_def]]
    show False by simp
  qed
  have noD: "OpenRaw raw_file \<notin> set (fst D)"
    unfolding D_def using download_files_events_set by blast
  have mem: "OpenRaw raw_file \<in> set (fst (chapter1 w m))"
    using evs by simp
  obtain env where env: "snd I = Inr env"
  proof (cases "snd I")
    case (Inl e)
    with mem noI shape show ?thesis by simp
  next
    case (Inr env)
    then show ?thesis by (rule that)
  qed
  obtain fs where fs: "snd D = Inr fs"
  proof (cases "snd D")
    case (Inl e)
    with mem noI noD shape env show ?thesis by simp
  next
    case (Inr fs)
    then show ?thesis by (rule that)
  qed
  define R where "R = open_raw_files fs file_names"
  define T where "T = (case snd R of Inl e \<Rightarrow> [] | Inr (echodata :: bytes list) \<Rightarrow> [Remove temp_output])"
  have shape': "fst (chapter1 w m) = (fst I @ fst D @ [ListDir]) @ (fst R @ T)"
    using shape env fs by (simp add: R_def T_def)
  have notin: "OpenRaw raw_file \<notin> set (fst I @ fst D @ [ListDir])"
    using noI noD by simp
  have eq: "(fst I @ fst D @ [ListDir]) @ (fst R @ T) = before @ OpenRaw raw_file # after"
    by (rule trans [OF shape' [symmetric] evs])
  from prefix_before [OF eq notin]
  obtain zs where before: "before = (fst I @ fst D @ [ListDir]) @ zs"
    by blast
  have "OpenRaw raw_file \<notin> set T"
    by (simp add: T_def split: sum.splits)
  with mem shape' noI noD have "OpenRaw raw_file \<in> set (fst R)"
    by simp
  then have name: "raw_file \<in> set file_names"
    unfolding R_def using open_raw_files_events_set by blast
  have "fst D = map (\<lambda>n. DownloadFile chapter1_bucket_name (raw_key n) (basename n)) file_names"
    using fs download_files_events unfolding D_def by blast
  with name have "DownloadFile chapter1_bucket_name (raw_key raw_file) (basename raw_file) \<in> set (fst D)"
    by auto
  then have "DownloadFile chapter1_bucket_name (raw_key raw_file) raw_file \<in> set before"
    using name before by (simp add: basename_file_names)
  then show ?thesis by blast
qed

text \<open>
  Claim C5, amended. No local file written by one notebook is read by another: only
  chapter 1 has cells that read or write local files, and every raw file it opens it
  has downloaded itself earlier in the same run; the other three notebooks take their
  data from remote storage only. (The package environment is left out: see the
  counterexample below.)
\<close>

theorem no_shared_files:
  "(A \<noteq> B \<longrightarrow> \<not> (notebook_writes A w m (File path) \<and> notebook_reads B w' m' (File path))) \<and>
   (nb \<noteq> Echofish_Chapter_1 \<longrightarrow>
      (\<forall>ev \<in> set (fst (run_notebook nb w m)).
         \<not> reads ev (File path) \<and> \<not> writes ev (File path))) \<and>
   (fst (run_notebook nb w m) = before @ OpenRaw raw_file # after \<longrightarrow>
      nb = Echofish_Chapter_1 \<and> (\<exists>bucket key. DownloadFile bucket key raw_file \<in> set before))"
proof -
  have a: "A \<noteq> B \<longrightarrow> \<not> (notebook_writes A w m (File path) \<and> notebook_reads B w' m' (File path))"
  proof (intro impI notI)
    assume ne: "A \<noteq> B" and both: "notebook_writes A w m (File path) \<and> notebook_reads B w' m' (File path)"
    from both have "A = Echofish_Chapter_1"
      using other_notebooks_no_file [of A _ w m path] unfolding notebook_writes_def by blast
    moreover from both have "B = Echofish_Chapter_1"
      using other_notebooks_no_file [of B _ w' m' path] unfolding notebook_reads_def by blast
    ultimately show False using ne by simp
  qed
  have b: "nb \<noteq> Echofish_Chapter_1 \<longrightarrow>
      (\<forall>ev \<in> set (fst (run_notebook nb w m)).
         \<not> reads ev (File path) \<and> \<not> writes ev (File path))"
    using other_notebooks_no_file [of nb _ w m path] by blast
  have c: "fst (run_notebook nb w m) = before @ OpenRaw raw_file # after \<longrightarrow>
      nb = Echofish_Chapter_1 \<and> (\<exists>bucket key. DownloadFile bucket key raw_file \<in> set before)"
  proof
    assume evs: "fst (run_notebook nb w m) = before @ OpenRaw raw_file # after"
    then have "OpenRaw raw_file \<in> set (fst (run_notebook nb w m))"
      by simp
    then have nb: "nb = Echofish_Chapter_1"
      using other_notebooks_no_file [of nb "OpenRaw raw_file" w m path] by blast
    with evs chapter1_open_raw_after_download [of w m before raw_file after]
    show "nb = Echofish_Chapter_1 \<and> (\<exists>bucket key. DownloadFile bucket key raw_file \<in> set before)"
      by simp
  qed
  from a b c show ?thesis by blast
qed


lemma chapter2_install_fresh:
  "chapter2_install listed_import listed_pip [] =
     ([ImportRaised ''boto3'' ModuleNotFoundError, PipInstall ''boto3'',
       ImportRaised ''numpy'' ModuleNotFoundError, PipInstall ''numpy'',
       ImportRaised ''matplotlib'' ModuleNotFoundError, PipInstall ''matplotlib'',
       ImportRaised ''xarray'' ModuleNotFoundError, PipInstall ''xarray'',
       ImportRaised ''zarr'' ModuleNotFoundError, PipInstall ''zarr'',
       ImportRaised ''s3fs'' ModuleNotFoundError, PipInstall ''s3fs''],
      Inr [''s3fs'', ''zarr'', ''xarray'', ''matplotlib'', ''numpy'', ''boto3''])"
  by (simp add: chapter2_install_def chapter2_PACKAGES_def listed_import_def listed_pip_def
      requirement_name_def)

lemma chapter2_listed_machine:
  "\<exists>m'. snd (run_notebook Echofish_Chapter_2 listed_world fresh_machine) = Inr m' \<and>
     python m' = [''s3fs'', ''zarr'', ''xarray'', ''matplotlib'', ''numpy'', ''boto3'']"
proof -
  obtain nb where nb: "chapter2_arrays Finite small_cruise = Inr nb"
    using small_cruise_runs by blast
  show ?thesis
    using nb chapter2_install_fresh
    by (simp add: keep_machine_def chapter2_def snd_then_run listed_world_def fresh_machine_def
        open_zarr_def)
qed

lemma chapter1_imports_boto3:
  assumes "''boto3'' \<in> set (python m)"
  shows "Imported ''boto3'' \<in> set (fst (run_notebook Echofish_Chapter_1 listed_world m))"
  using assms
  by (simp add: chapter1_events chapter1_install_def chapter1_PACKAGES_def
      install_packages_Cons listed_world_def listed_import_def del: install_packages.simps)

text \<open>
  Claim C5, as stated, fails on the Python package environment, which is local state
  every setup cell reads and may write: on a machine without boto3 chapter 2 installs
  it, and chapter 1, run next on that machine, imports what chapter 2 installed.
\<close>

theorem shared_package_environment_counterexample:
  "notebook_writes Echofish_Chapter_2 listed_world fresh_machine (Package ''boto3'') \<and>
   (\<exists>m'. snd (run_notebook Echofish_Chapter_2 listed_world fresh_machine) = Inr m' \<and>
      python m' = [''s3fs'', ''zarr'', ''xarray'', ''matplotlib'', ''numpy'', ''boto3''] \<and>
      Imported ''boto3'' \<in> set (fst (run_notebook Echofish_Chapter_1 listed_world m')) \<and>
      notebook_reads Echofish_Chapter_1 listed_world m' (Package ''boto3'')) \<and>
   \<not> (\<forall>A B (w :: string list world) m m' r.
         A \<noteq> B \<longrightarrow> \<not> (notebook_writes A w m r \<and> notebook_reads B w m' r))"
proof -
  have "PipInstall ''boto3'' \<in> set (fst (run_notebook Echofish_Chapter_2 listed_world fresh_machine))"
    using chapter2_install_fresh
    by (simp add: keep_machine_def chapter2_def fst_then_run listed_world_def fresh_machine_def)
  moreover have "writes (PipInstall ''boto3'') (Package ''boto3'')"
    by (simp add: requirement_name_def)
  ultimately have w: "notebook_writes Echofish_Chapter_2 listed_world fresh_machine (Package ''boto3'')"
    unfolding notebook_writes_def by blast
  obtain m' where m': "snd (run_notebook Echofish_Chapter_2 listed_world fresh_machine) = Inr m'"
      "python m' = [''s3fs'', ''zarr'', ''xarray'', ''matplotlib'', ''numpy'', ''boto3'']"
    using chapter2_listed_machine by blast
  have i: "Imported ''boto3'' \<in> set (fst (run_notebook Echofish_Chapter_1 listed_world m'))"
    by (rule chapter1_imports_boto3) (simp add: m')
  moreover have "reads (Imported ''boto3'') (Package ''boto3'')"
    by simp
  ultimately have r: "notebook_reads Echofish_Chapter_1 listed_world m' (Package ''boto3'')"
    unfolding notebook_reads_def by blast
  have "\<not> (\<forall>A B (w :: string list world) m m' r.
         A \<noteq> B \<longrightarrow> \<not> (notebook_writes A w m r \<and> notebook_reads B w m' r))"
  proof
    assume "\<forall>A B (w :: string list world) m m' r.
         A \<noteq> B \<longrightarrow> \<not> (notebook_writes A w m r \<and> notebook_reads B w m' r)"
    then have "Echofish_Chapter_2 \<noteq> Echofish_Chapter_1 \<longrightarrow>
        \<not> (notebook_writes Echofish_Chapter_2 listed_world fresh_machine (Package ''boto3'') \<and>
           notebook_reads Echofish_Chapter_1 listed_world m' (Package ''boto3''))"
      by blast
    with w r show False by simp
  qed
  with w m' i r show ?thesis by blast
qed

theorem no_shared_files_witness:
  "Echofish_Chapter_1 \<noteq> Echofish_Chapter_2 \<and>
   \<not> (notebook_writes Echofish_Chapter_1 listed_world fresh_machine
         (File ''SaKe2015-D20150719-T193412.raw'') \<and>
       notebook_reads Echofish_Chapter_2 listed_world fresh_machine
         (File ''SaKe2015-D20150719-T193412.raw'')) \<and>
   notebook_writes Echofish_Chapter_1 listed_world fresh_machine
     (File ''SaKe2015-D20150719-T193412.raw'') \<and>
   notebook_reads Echofish_Chapter_1 listed_world fresh_machine
     (File ''SaKe2015-D20150719-T193412.raw'') \<and>
   \<not> notebook_reads Echofish_Chapter_2 listed_world fresh_machine
     (File ''SaKe2015-D20150719-T193412.raw'') \<and>
   (\<exists>before after.
      fst (run_notebook Echofish_Chapter_1 listed_world fresh_machine) =
        before @ OpenRaw ''SaKe2015-D20150719-T193412.raw'' # after \<and>
      (\<exists>bucket key. DownloadFile bucket key ''SaKe2015-D20150719-T193412.raw'' \<in> set before))"
proof -
  let ?f = "''SaKe2015-D20150719-T193412.raw''"
  let ?evs = "fst (run_notebook Echofish_Chapter_1 listed_world fresh_machine)"
  have dl: "DownloadFile ''noaa-wcsd-pds''
      ''data/raw/Bell_M._Shimada/SH1507/EK60/SaKe2015-D20150719-T193412.raw'' ?f \<in> set ?evs"
    using chapter1_listed_run by simp
  have raw: "OpenRaw ?f \<in> set ?evs"
    using chapter1_listed_run by simp
  have w1: "notebook_writes Echofish_Chapter_1 listed_world fresh_machine (File ?f)"
    unfolding notebook_writes_def using dl by (rule rev_bexI) simp
  have r1: "notebook_reads Echofish_Chapter_1 listed_world fresh_machine (File ?f)"
    unfolding notebook_reads_def using raw by (rule rev_bexI) simp
  have nr: "\<not> notebook_reads Echofish_Chapter_2 listed_world fresh_machine (File ?f)"
    using no_shared_files [where nb = Echofish_Chapter_2 and w = listed_world
        and m = fresh_machine and path = ?f and A = Echofish_Chapter_1 and B = Echofish_Chapter_2
        and w' = listed_world and m' = fresh_machine and before = "[]" and after = "[]"
        and raw_file = ?f]
    unfolding notebook_reads_def by simp
  from raw obtain before after where split: "?evs = before @ OpenRaw ?f # after"
    by (meson split_list)
  with no_shared_files [where nb = Echofish_Chapter_1 and w = listed_world
        and m = fresh_machine and path = ?f and A = Echofish_Chapter_1 and B = Echofish_Chapter_2
        and w' = listed_world and m' = fresh_machine and before = before and after = after
        and raw_file = ?f]
  have "\<exists>bucket key. DownloadFile bucket key ?f \<in> set before"
    by simp
  with split have ex: "\<exists>before after. ?evs = before @ OpenRaw ?f # after \<and>
      (\<exists>bucket key. DownloadFile bucket key ?f \<in> set before)"
    by blast
  from w1 r1 nr ex show ?thesis by simp
qed

section \<open>What ends a run\<close>





























end
